theory Spec2Isabelle
  imports Main "HOL-Library.AList"
begin

section \<open>Data model\<close>

text \<open>
  The tables of \<open>bot/database/models/main.py\<close> as far as the reservation engine, the expiry
  sweep, the order commands of \<open>bot_cli.py\<close> and the Bitcoin address pool read or write them.
  Timestamps are microseconds since the epoch (an \<open>int\<close>; the resolution of
  \<open>datetime\<close>), money amounts are integers in the smallest unit.
  A row of \<open>Goods\<close> is found by its name, a row of \<open>Order\<close> by its id; the order table
  is kept as a list of rows because the sweep and the command line walk it in row order.
\<close>

record goods =
  stock_quantity :: int
  reserved_quantity :: int

text \<open>
  An \<open>OrderItem\<close> row and an entry of the \<open>items\<close> argument of \<open>reserve_inventory\<close>
  (a dict with the keys \<open>item_name\<close> and \<open>quantity\<close>) carry the same two fields the
  engine reads.
\<close>

record order_item =
  item_name :: string
  quantity :: int

record order =
  order_code :: "string option"
  buyer_id :: int
  order_status :: string
  payment_method :: string
  reserved_until :: "int option"
  bonus_applied :: "int option"
  delivery_time :: "int option"
  completed_at :: "int option"
  items :: "order_item list"

text \<open>The value of \<open>order.order_code or order_id\<close> inside the audit comments.\<close>

datatype order_ref = Code string | Ident int

definition order_ref_of :: "order \<Rightarrow> int \<Rightarrow> order_ref" where
  "order_ref_of ord order_id =
     (case order_code ord of
        None \<Rightarrow> Ident order_id
      | Some c \<Rightarrow> if c = [] then Ident order_id else Code c)"

text \<open>The f-strings written into \<open>InventoryLog.comment\<close>, kept as structured values.\<close>

datatype comment =
    Reserved_for order_ref string
  | Released string order_ref
  | Order_confirmed order_ref
  | Text string

record inventory_log =
  log_item_name :: string
  change_type :: string
  quantity_change :: int
  log_order_id :: "int option"
  log_admin_id :: "int option"
  log_comment :: comment

record bitcoin_address =
  is_used :: bool
  used_by :: "int option"
  used_at :: "int option"
  btc_order_id :: "int option"

record database =
  goods_tbl :: "string \<rightharpoonup> goods"
  order_tbl :: "(int \<times> order) list"
  inventory_log_tbl :: "inventory_log list"
  bot_settings :: "string \<rightharpoonup> string"
  bonus_balance :: "int \<rightharpoonup> int"
  bitcoin_tbl :: "string \<rightharpoonup> bitcoin_address"

section \<open>Sessions\<close>

text \<open>
  A SQLAlchemy session is the database as last committed (\<open>base\<close>), the working copy with
  the pending writes (\<open>work\<close>), and the calls made on the session and on the module logger
  so far (\<open>effects\<close>). \<open>commit\<close> makes the working copy the committed one, \<open>rollback\<close>
  and \<open>close\<close> drop the pending writes.
\<close>

datatype severity = Info | Warning | Error | Critical

datatype effect = Commit | Rollback | Close | Logged severity

record session =
  base :: database
  work :: database
  effects :: "effect list"

definition new_session :: "database \<Rightarrow> session" where
  "new_session db = \<lparr>base = db, work = db, effects = []\<rparr>"

definition commit :: "session \<Rightarrow> session" where
  "commit s = s\<lparr>base := work s, effects := effects s @ [Commit]\<rparr>"

definition rollback :: "session \<Rightarrow> session" where
  "rollback s = s\<lparr>work := base s, effects := effects s @ [Rollback]\<rparr>"

definition close :: "session \<Rightarrow> session" where
  "close s = s\<lparr>work := base s, effects := effects s @ [Close]\<rparr>"

definition logger :: "severity \<Rightarrow> session \<Rightarrow> session" where
  "logger lvl s = s\<lparr>effects := effects s @ [Logged lvl]\<rparr>"

text \<open>
  \<open>should_commit = session is None; if session is None: session = Database().session()\<close>
  at the head of every engine operation, and \<open>finally: if should_commit: session.close()\<close>
  at its end.
\<close>

definition session_or_new :: "session option \<Rightarrow> database \<Rightarrow> session" where
  "session_or_new sess db = (case sess of None \<Rightarrow> new_session db | Some s \<Rightarrow> s)"

definition finally_close :: "bool \<Rightarrow> 'a \<times> session \<Rightarrow> 'a \<times> session" where
  "finally_close should_commit r = (if should_commit then (fst r, close (snd r)) else r)"

section \<open>Strings\<close>

text \<open>
  \<open>str.strip()\<close> without an argument drops the whitespace characters at both ends.
\<close>

definition is_space :: "char \<Rightarrow> bool" where
  "is_space c = ((of_char c :: nat) \<in> {9, 10, 11, 12, 13, 28, 29, 30, 31, 32, 133, 160})"

definition strip :: "string \<Rightarrow> string" where
  "strip s = rev (dropWhile is_space (rev (dropWhile is_space s)))"

section \<open>Settings\<close>

text \<open>
  \<open>get_bot_setting(setting_key, default, value_type=int)\<close> of \<open>methods/read.py\<close> with an
  integer default: a missing row, an empty value and a value \<open>int\<close> rejects all give the
  default. It opens a session of its own, so it reads the committed database. Python's
  built-in \<open>int\<close> on a text is the argument \<open>to_int\<close>, with \<open>None\<close> for its
  \<open>ValueError\<close>; nothing below depends on which texts it accepts.
\<close>

definition get_bot_setting ::
  "(string \<Rightarrow> int option) \<Rightarrow> database \<Rightarrow> string \<Rightarrow> int \<Rightarrow> int" where
  "get_bot_setting to_int db setting_key dflt =
     (case bot_settings db setting_key of
        None \<Rightarrow> dflt
      | Some v \<Rightarrow>
          if v = [] then dflt
          else (case to_int v of Some n \<Rightarrow> n | None \<Rightarrow> dflt))"

section \<open>Dates\<close>

text \<open>
  \<open>timedelta(hours=h)\<close> raises \<open>OverflowError\<close> unless its day count, \<open>h\<close> divided by 24
  and rounded down, is at most 999999999 in magnitude. \<open>datetime + timedelta\<close> raises
  \<open>OverflowError\<close> unless the sum lies between \<open>datetime.min\<close> (the first microsecond of
  year 1) and \<open>datetime.max\<close> (the last microsecond of year 9999). \<open>None\<close> stands for the
  exception.
\<close>

definition timedelta_hours :: "int \<Rightarrow> int option" where
  "timedelta_hours h =
     (if - 999999999 \<le> h div 24 \<and> h div 24 \<le> 999999999 then Some (3600000000 * h) else None)"

definition datetime_min :: int where
  "datetime_min = - 62135596800000000"

definition datetime_max :: int where
  "datetime_max = 253402300799999999"

definition datetime_plus :: "int \<Rightarrow> int \<Rightarrow> int option" where
  "datetime_plus t delta =
     (if datetime_min \<le> t + delta \<and> t + delta \<le> datetime_max then Some (t + delta) else None)"

text \<open>\<open>now + timedelta(hours=timeout_hours)\<close>.\<close>

definition plus_hours :: "int \<Rightarrow> int \<Rightarrow> int option" where
  "plus_hours now timeout_hours =
     (case timedelta_hours timeout_hours of
        None \<Rightarrow> None
      | Some delta \<Rightarrow> datetime_plus now delta)"

section \<open>Reservation engine (\<open>bot/database/methods/inventory.py\<close>)\<close>

text \<open>
  The second component of the \<open>(bool, str)\<close> results. \<open>Error_reserving\<close> is the message
  of the \<open>except Exception\<close> branch of \<open>reserve_inventory\<close>, reached when the deadline
  cannot be computed. The other \<open>except Exception\<close> branches answer a failing database
  driver or a malformed dict, which the typed model has not.
  The cache invalidation tasks and the metrics events the operations fire touch neither the
  database nor the session and are left out.
\<close>

datatype message =
    Order_not_found
  | Item_not_found string
  | Insufficient_stock string int int
  | Stock_negative string
  | Error_reserving
  | Reserved_successfully
  | Released_successfully
  | Deducted_successfully
  | Added int string

text \<open>\<open>log_inventory_change\<close> on the caller's session: one row added, no commit.\<close>

definition log_inventory_change ::
  "string \<Rightarrow> string \<Rightarrow> int \<Rightarrow> int option \<Rightarrow> int option \<Rightarrow> comment \<Rightarrow> database \<Rightarrow> database" where
  "log_inventory_change name ctype qty oid admin cmt db =
     db\<lparr>inventory_log_tbl := inventory_log_tbl db @
        [\<lparr>log_item_name = name, change_type = ctype, quantity_change = qty,
          log_order_id = oid, log_admin_id = admin, log_comment = cmt\<rparr>]\<rparr>"

definition set_goods :: "string \<Rightarrow> goods \<Rightarrow> database \<Rightarrow> database" where
  "set_goods name g db = db\<lparr>goods_tbl := (goods_tbl db)(name \<mapsto> g)\<rparr>"

text \<open>
  An assignment to attributes of the \<open>Order\<close> object loaded by id: the first row with that id
  is changed in place.
\<close>

definition modify_order :: "int \<Rightarrow> (order \<Rightarrow> order) \<Rightarrow> database \<Rightarrow> database" where
  "modify_order order_id f db = db\<lparr>order_tbl := AList.map_entry order_id f (order_tbl db)\<rparr>"

definition get_order :: "database \<Rightarrow> int \<Rightarrow> order option" where
  "get_order db order_id = map_of (order_tbl db) order_id"

text \<open>
  The loop of \<open>reserve_inventory\<close> over the requested items, on the working copy. \<open>Inl\<close> is
  the early \<open>return False, ...\<close>; the \<open>session.rollback()\<close> in front of it is done by the
  caller below.
\<close>

fun reserve_items ::
  "int \<Rightarrow> order_ref \<Rightarrow> string \<Rightarrow> order_item list \<Rightarrow> database \<Rightarrow> message + database" where
  "reserve_items order_id ref pm [] db = Inr db"
| "reserve_items order_id ref pm (item_data # rest) db =
     (case goods_tbl db (item_name item_data) of
        None \<Rightarrow> Inl (Item_not_found (item_name item_data))
      | Some g \<Rightarrow>
          let available = stock_quantity g - reserved_quantity g in
          if available < quantity item_data
          then Inl (Insufficient_stock (item_name item_data) available (quantity item_data))
          else reserve_items order_id ref pm rest
                 (log_inventory_change (item_name item_data) ''reserve'' (quantity item_data)
                    (Some order_id) None (Reserved_for ref pm)
                    (set_goods (item_name item_data)
                       (g\<lparr>reserved_quantity := reserved_quantity g + quantity item_data\<rparr>) db)))"

text \<open>
  \<open>reserve_inventory\<close>. After the loop the deadline is computed; when that raises, the
  \<open>except Exception\<close> branch rolls back a session of its own only, so on a supplied session
  the reservations of the loop stay pending, and the call returns a failure.
\<close>

definition reserve_inventory ::
  "(string \<Rightarrow> int option) \<Rightarrow> int \<Rightarrow> int \<Rightarrow> order_item list \<Rightarrow> string option
     \<Rightarrow> session option \<Rightarrow> database \<Rightarrow> (bool \<times> message) \<times> session" where
  "reserve_inventory to_int now order_id its pay_method sess db =
     (let should_commit = (sess = None);
          s = session_or_new sess db
      in finally_close should_commit
        (case get_order (work s) order_id of
           None \<Rightarrow> ((False, Order_not_found), s)
         | Some ord \<Rightarrow>
             let pm = (case pay_method of None \<Rightarrow> payment_method ord | Some p \<Rightarrow> p) in
             (case reserve_items order_id (order_ref_of ord order_id) pm its (work s) of
                Inl msg \<Rightarrow> ((False, msg), rollback s)
              | Inr db' \<Rightarrow>
                  let timeout_hours =
                        get_bot_setting to_int (base s) ''cash_order_timeout_hours'' 24
                  in (case plus_hours now timeout_hours of
                        None \<Rightarrow>
                          ((False, Error_reserving),
                           if should_commit then rollback (s\<lparr>work := db'\<rparr>)
                           else s\<lparr>work := db'\<rparr>)
                      | Some deadline \<Rightarrow>
                          let s' = s\<lparr>work := modify_order order_id
                                     (\<lambda>row. row\<lparr>reserved_until := Some deadline,
                                               order_status := ''reserved''\<rparr>) db'\<rparr>
                          in ((True, Reserved_successfully),
                              if should_commit then commit s' else s')))))"

text \<open>The loop of \<open>release_reservation\<close>: an item that no longer exists is skipped.\<close>

fun release_items ::
  "int \<Rightarrow> string \<Rightarrow> order_ref \<Rightarrow> order_item list \<Rightarrow> database \<Rightarrow> database" where
  "release_items order_id reason ref [] db = db"
| "release_items order_id reason ref (order_item # rest) db =
     (case goods_tbl db (item_name order_item) of
        None \<Rightarrow> release_items order_id reason ref rest db
      | Some g \<Rightarrow>
          let r = reserved_quantity g - quantity order_item in
          release_items order_id reason ref rest
            (log_inventory_change (item_name order_item) ''release'' (- quantity order_item)
               (Some order_id) None (Released reason ref)
               (set_goods (item_name order_item)
                  (g\<lparr>reserved_quantity := (if r < 0 then 0 else r)\<rparr>) db)))"

definition release_reservation ::
  "int \<Rightarrow> string \<Rightarrow> session option \<Rightarrow> database \<Rightarrow> (bool \<times> message) \<times> session" where
  "release_reservation order_id reason sess db =
     (let should_commit = (sess = None);
          s = session_or_new sess db
      in finally_close should_commit
        (case get_order (work s) order_id of
           None \<Rightarrow> ((False, Order_not_found), s)
         | Some ord \<Rightarrow>
             let db' = release_items order_id reason (order_ref_of ord order_id) (items ord) (work s);
                 s' = s\<lparr>work := modify_order order_id (\<lambda>row. row\<lparr>reserved_until := None\<rparr>) db'\<rparr>
             in ((True, Released_successfully), if should_commit then commit s' else s')))"

text \<open>
  The loop of \<open>deduct_inventory\<close>: both counters go down by the line quantity; a negative
  stock is the early \<open>return False\<close>, a negative reserved count is set to zero.
\<close>

fun deduct_items ::
  "int \<Rightarrow> int option \<Rightarrow> order_ref \<Rightarrow> order_item list \<Rightarrow> database \<Rightarrow> message + database" where
  "deduct_items order_id admin_id ref [] db = Inr db"
| "deduct_items order_id admin_id ref (order_item # rest) db =
     (case goods_tbl db (item_name order_item) of
        None \<Rightarrow> Inl (Item_not_found (item_name order_item))
      | Some g \<Rightarrow>
          let stock = stock_quantity g - quantity order_item;
              r = reserved_quantity g - quantity order_item
          in if stock < 0 then Inl (Stock_negative (item_name order_item))
             else deduct_items order_id admin_id ref rest
                    (log_inventory_change (item_name order_item) ''deduct'' (- quantity order_item)
                       (Some order_id) admin_id (Order_confirmed ref)
                       (set_goods (item_name order_item)
                          (g\<lparr>stock_quantity := stock,
                             reserved_quantity := (if r < 0 then 0 else r)\<rparr>) db)))"

definition deduct_inventory ::
  "int \<Rightarrow> int option \<Rightarrow> session option \<Rightarrow> database \<Rightarrow> (bool \<times> message) \<times> session" where
  "deduct_inventory order_id admin_id sess db =
     (let should_commit = (sess = None);
          s = session_or_new sess db
      in finally_close should_commit
        (case get_order (work s) order_id of
           None \<Rightarrow> ((False, Order_not_found), s)
         | Some ord \<Rightarrow>
             (case deduct_items order_id admin_id (order_ref_of ord order_id) (items ord) (work s) of
                Inl msg \<Rightarrow> ((False, msg), rollback s)
              | Inr db' \<Rightarrow>
                  let s' = s\<lparr>work := modify_order order_id (\<lambda>row. row\<lparr>reserved_until := None\<rparr>) db'\<rparr>
                  in ((True, Deducted_successfully), if should_commit then commit s' else s'))))"

definition add_inventory ::
  "string \<Rightarrow> int \<Rightarrow> int option \<Rightarrow> string option \<Rightarrow> session option \<Rightarrow> database
     \<Rightarrow> (bool \<times> message) \<times> session" where
  "add_inventory name qty admin_id cmt sess db =
     (let should_commit = (sess = None);
          s = session_or_new sess db
      in finally_close should_commit
        (case goods_tbl (work s) name of
           None \<Rightarrow> ((False, Item_not_found name), s)
         | Some g \<Rightarrow>
             let text = (case cmt of None \<Rightarrow> ''Stock added''
                         | Some c \<Rightarrow> if c = [] then ''Stock added'' else c);
                 s' = s\<lparr>work := log_inventory_change name ''add'' qty None admin_id (Text text)
                        (set_goods name (g\<lparr>stock_quantity := stock_quantity g + qty\<rparr>) (work s))\<rparr>
             in ((True, Added qty name), if should_commit then commit s' else s')))"

section \<open>Expiry sweep\<close>

text \<open>
  \<open>cleanup_expired_reservations\<close> opens one session, reads the due orders, handles them in
  a loop on that session and commits once after the loop. Two collaborators decide what
  happens beside the database: \<open>send_message buyer\<close> tells whether the refund notification
  to that buyer goes through (its failure is caught and logged as a warning), and
  \<open>cancellation_log_fails order_id\<close> tells whether \<open>log_order_cancellation\<close> raises for that
  order; nothing catches that exception, so it leaves the function through the \<open>with\<close>
  block, which closes the session. The result \<open>None\<close> stands for the exception. The CSV
  export of the buyer and the lookups of user names write nothing to the database and are
  left out.
\<close>

definition is_due :: "int \<Rightarrow> order \<Rightarrow> bool" where
  "is_due now ord =
     (order_status ord = ''reserved'' \<and>
      (case reserved_until ord of None \<Rightarrow> False | Some t \<Rightarrow> t < now))"

definition refund_bonus :: "(int \<Rightarrow> bool) \<Rightarrow> order \<Rightarrow> session \<Rightarrow> session" where
  "refund_bonus send_message ord s =
     (case bonus_applied ord of
        None \<Rightarrow> s
      | Some bonus \<Rightarrow>
          if bonus > 0 then
            (case bonus_balance (work s) (buyer_id ord) of
               None \<Rightarrow> s
             | Some balance \<Rightarrow>
                 let s1 = s\<lparr>work := (work s)\<lparr>bonus_balance :=
                              (bonus_balance (work s))(buyer_id ord \<mapsto> balance + bonus)\<rparr>\<rparr>;
                     s2 = logger (if send_message (buyer_id ord) then Info else Warning) s1
                 in logger Info s2)
          else s)"

fun expire_orders ::
  "(int \<Rightarrow> bool) \<Rightarrow> (int \<Rightarrow> bool) \<Rightarrow> (int \<times> order) list \<Rightarrow> nat \<Rightarrow> order_ref list \<Rightarrow> session
     \<Rightarrow> (nat \<times> order_ref list) option \<times> session" where
  "expire_orders send_message cancellation_log_fails [] count order_codes s =
     (Some (count, order_codes), s)"
| "expire_orders send_message cancellation_log_fails ((order_id, ord) # rest) count order_codes s =
     (case release_reservation order_id ''Reservation timeout expired'' (Some s) (base s) of
        ((success, msg), s1) \<Rightarrow>
          if success then
            let s2 = s1\<lparr>work := modify_order order_id
                          (\<lambda>row. row\<lparr>order_status := ''expired''\<rparr>) (work s1)\<rparr>;
                s3 = refund_bonus send_message ord s2
            in if cancellation_log_fails order_id then (None, s3)
               else expire_orders send_message cancellation_log_fails rest
                      (count + 1) (order_codes @ [order_ref_of ord order_id]) s3
          else expire_orders send_message cancellation_log_fails rest count order_codes s1)"

definition cleanup_expired_reservations ::
  "(int \<Rightarrow> bool) \<Rightarrow> (int \<Rightarrow> bool) \<Rightarrow> int \<Rightarrow> database
     \<Rightarrow> (nat \<times> order_ref list) option \<times> session" where
  "cleanup_expired_reservations send_message cancellation_log_fails now db =
     (let s = new_session db;
          expired_orders = filter (\<lambda>(order_id, ord). is_due now ord) (order_tbl (work s))
      in case expire_orders send_message cancellation_log_fails expired_orders 0 [] s of
           (Some r, s') \<Rightarrow> (Some r, close (commit s'))
         | (None, s') \<Rightarrow> (None, close s'))"

section \<open>Order commands (\<open>bot_cli.py\<close>)\<close>

text \<open>
  \<open>confirm_order_with_delivery_time\<close> and \<open>mark_order_delivered\<close> look the order up by its
  code and refuse three groups of statuses. \<open>bot_cli.py\<close> imports \<open>timezone\<close> from
  \<open>datetime\<close> in line 7 and again from \<open>bot.config\<close> in line 38, so in both functions the
  name is the module \<open>bot/config/timezone.py\<close>, which has no attribute \<open>utc\<close>. The confirm
  command therefore raises \<open>AttributeError\<close> at \<open>delivery_time.replace(tzinfo=timezone.utc)\<close>,
  inside a \<open>try\<close> that catches \<open>ValueError\<close> only and before it writes anything; the deliver
  command raises it at \<open>datetime.now(timezone.utc)\<close>, after the deduction and the new
  status are pending on the session and before the commit. The exception leaves through
  the \<open>with\<close> block, which closes the session. The parsed delivery time is an argument
  (\<open>None\<close> when \<open>strptime\<close> rejects the text).
\<close>

datatype cli_outcome =
    Cli_order_not_found
  | Already_delivered
  | Cancelled_or_expired
  | Invalid_delivery_time
  | Deduct_failed message
  | Attribute_error

definition find_order_by_code :: "database \<Rightarrow> string \<Rightarrow> (int \<times> order) option" where
  "find_order_by_code db code = find (\<lambda>(order_id, ord). order_code ord = Some code) (order_tbl db)"

definition confirm_order_with_delivery_time ::
  "string \<Rightarrow> int option \<Rightarrow> database \<Rightarrow> cli_outcome \<times> session" where
  "confirm_order_with_delivery_time code delivery db =
     (let s = new_session db in
      case find_order_by_code (work s) code of
        None \<Rightarrow> (Cli_order_not_found, close s)
      | Some (order_id, ord) \<Rightarrow>
          if order_status ord = ''delivered'' then (Already_delivered, close s)
          else if order_status ord \<in> set [''cancelled'', ''canceled'', ''expired'']
          then (Cancelled_or_expired, close s)
          else (case delivery of
                  None \<Rightarrow> (Invalid_delivery_time, close s)
                | Some dt \<Rightarrow> (Attribute_error, close s)))"

definition mark_order_delivered ::
  "string \<Rightarrow> int \<Rightarrow> database \<Rightarrow> cli_outcome \<times> session" where
  "mark_order_delivered code owner_id db =
     (let s = new_session db in
      case find_order_by_code (work s) code of
        None \<Rightarrow> (Cli_order_not_found, close s)
      | Some (order_id, ord) \<Rightarrow>
          if order_status ord = ''delivered'' then (Already_delivered, close s)
          else if order_status ord \<in> set [''cancelled'', ''canceled'', ''expired'']
          then (Cancelled_or_expired, close s)
          else (case deduct_inventory order_id (Some owner_id) (Some s) (base s) of
                  ((success, msg), s1) \<Rightarrow>
                    if \<not> success then (Deduct_failed msg, close s1)
                    else
                      let s2 = s1\<lparr>work := modify_order order_id
                                 (\<lambda>row. row\<lparr>order_status := ''delivered''\<rparr>) (work s1)\<rparr>
                      in (Attribute_error, close s2)))"

section \<open>Bitcoin address pool (\<open>bot/payments/bitcoin.py\<close>)\<close>

text \<open>
  \<open>btc_addresses.txt\<close> is the list of its lines without the line ends, or \<open>None\<close> when the
  file does not exist.
\<close>

definition starts_with_hash :: "string \<Rightarrow> bool" where
  "starts_with_hash s = (case s of [] \<Rightarrow> False | c # _ \<Rightarrow> c = CHR ''#'')"

text \<open>The addresses \<open>load_bitcoin_addresses_from_file\<close> reads out of the file.\<close>

definition file_addresses :: "string list \<Rightarrow> string list" where
  "file_addresses lines =
     map strip (filter (\<lambda>line. strip line \<noteq> [] \<and> \<not> starts_with_hash (strip line)) lines)"

definition unused_address :: bitcoin_address where
  "unused_address = \<lparr>is_used = False, used_by = None, used_at = None, btc_order_id = None\<rparr>"

fun load_addresses :: "string list \<Rightarrow> nat \<Rightarrow> database \<Rightarrow> nat \<times> database" where
  "load_addresses [] loaded_count db = (loaded_count, db)"
| "load_addresses (address # rest) loaded_count db =
     (case bitcoin_tbl db address of
        Some existing \<Rightarrow> load_addresses rest loaded_count db
      | None \<Rightarrow>
          load_addresses rest (loaded_count + 1)
            (db\<lparr>bitcoin_tbl := (bitcoin_tbl db)(address \<mapsto> unused_address)\<rparr>))"

definition load_bitcoin_addresses_from_file ::
  "string list option \<Rightarrow> database \<Rightarrow> nat \<times> string list option \<times> database" where
  "load_bitcoin_addresses_from_file file db =
     (case file of
        None \<Rightarrow> (0, Some [], db)
      | Some lines \<Rightarrow>
          if file_addresses lines = [] then (0, file, db)
          else (case load_addresses (file_addresses lines) 0 db of
                  (loaded_count, db') \<Rightarrow> (loaded_count, file, db')))"

definition remove_bitcoin_address_from_file :: "string \<Rightarrow> string list option \<Rightarrow> string list option" where
  "remove_bitcoin_address_from_file address file =
     (case file of
        None \<Rightarrow> None
      | Some lines \<Rightarrow>
          Some (filter (\<lambda>line. strip line = [] \<or> starts_with_hash (strip line) \<or>
                               strip line \<noteq> address) lines))"

text \<open>
  \<open>mark_bitcoin_address_used\<close>: on the caller's session without a commit, on a session of
  its own with one. The result is the returned flag, the session and the file afterwards.
\<close>

definition mark_bitcoin_address_used ::
  "string \<Rightarrow> int \<Rightarrow> int \<Rightarrow> int \<Rightarrow> session option \<Rightarrow> database \<Rightarrow> string list option
     \<Rightarrow> bool \<times> session \<times> string list option" where
  "mark_bitcoin_address_used address user_id order_id now sess db file =
     (let s = session_or_new sess db;
          finish = (\<lambda>s'. if sess = None then close s' else s')
      in case bitcoin_tbl (work s) address of
           None \<Rightarrow> (False, finish s, file)
         | Some btc_addr \<Rightarrow>
             let s1 = s\<lparr>work := (work s)\<lparr>bitcoin_tbl := (bitcoin_tbl (work s))(address \<mapsto>
                         btc_addr\<lparr>is_used := True, used_by := Some user_id,
                                  used_at := Some now, btc_order_id := Some order_id\<rparr>)\<rparr>\<rparr>;
                 s2 = (if sess = None then close (commit s1) else s1)
             in (True, s2, remove_bitcoin_address_from_file address file))"

section \<open>Sample data\<close>

text \<open>Small tables on which the theorems below are instantiated.\<close>

definition line :: "string \<Rightarrow> int \<Rightarrow> order_item" where
  "line name qty = \<lparr>item_name = name, quantity = qty\<rparr>"

definition stocked :: "int \<Rightarrow> int \<Rightarrow> goods" where
  "stocked stock reserved = \<lparr>stock_quantity = stock, reserved_quantity = reserved\<rparr>"

definition sample_order :: "string \<Rightarrow> string \<Rightarrow> int option \<Rightarrow> order_item list \<Rightarrow> order" where
  "sample_order status method until its =
     \<lparr>order_code = Some ''ECBDJI'', buyer_id = 42, order_status = status,
      payment_method = method, reserved_until = until, bonus_applied = None,
      delivery_time = None, completed_at = None, items = its\<rparr>"

definition sample_db :: "(string \<times> goods) list \<Rightarrow> (int \<times> order) list \<Rightarrow> database" where
  "sample_db gs os =
     \<lparr>goods_tbl = map_of gs, order_tbl = os, inventory_log_tbl = [],
      bot_settings = Map.empty, bonus_balance = Map.empty, bitcoin_tbl = Map.empty\<rparr>"

text \<open>
  What Python's \<open>int\<close> gives for the setting texts used in the examples: \<open>int('48')\<close> is 48
  and \<open>int('100000000')\<close> is 100000000. No other text is converted in them.
\<close>

definition known_ints :: "string \<Rightarrow> int option" where
  "known_ints v =
     (if v = ''48'' then Some 48 else if v = ''100000000'' then Some 100000000 else None)"

text \<open>The deadline stored for an order in the working copy of a session.\<close>

definition deadline_of :: "session \<Rightarrow> int \<Rightarrow> int option" where
  "deadline_of s order_id =
     (case get_order (work s) order_id of None \<Rightarrow> None | Some ord \<Rightarrow> reserved_until ord)"

text \<open>The stock invariant: no item has a negative stock or a negative reserved count.\<close>

definition non_negative :: "database \<Rightarrow> bool" where
  "non_negative db =
     (\<forall>name g. goods_tbl db name = Some g \<longrightarrow> 0 \<le> stock_quantity g \<and> 0 \<le> reserved_quantity g)"

text \<open>The calls made on the session itself, without the log records.\<close>

fun is_session_call :: "effect \<Rightarrow> bool" where
  "is_session_call (Logged lvl) = False"
| "is_session_call e = True"

definition session_calls :: "session \<Rightarrow> effect list" where
  "session_calls s = filter is_session_call (effects s)"

text \<open>An order that the sweep has finished: expired, with no deadline.\<close>

definition expired_in :: "database \<Rightarrow> int \<Rightarrow> bool" where
  "expired_in db order_id =
     (case get_order db order_id of
        None \<Rightarrow> False
      | Some ord \<Rightarrow> order_status ord = ''expired'' \<and> reserved_until ord = None)"

text \<open>The releases of the sweep alone: the lines of each row released in turn.\<close>

fun release_rows :: "(int \<times> order) list \<Rightarrow> database \<Rightarrow> database" where
  "release_rows [] db = db"
| "release_rows ((order_id, ord) # rest) db =
     release_rows rest
       (release_items order_id ''Reservation timeout expired'' (order_ref_of ord order_id)
          (items ord) db)"

text \<open>The rows the sweep reads, and the item names of all their lines.\<close>

definition due_orders :: "int \<Rightarrow> database \<Rightarrow> (int \<times> order) list" where
  "due_orders now db = filter (\<lambda>(order_id, ord). is_due now ord) (order_tbl db)"

definition released_names :: "(int \<times> order) list \<Rightarrow> string list" where
  "released_names rows = concat (map (\<lambda>(order_id, ord). map item_name (items ord)) rows)"

text \<open>
  One round of the loop of \<open>expire_orders\<close> for an order that exists, up to the call of
  \<open>log_order_cancellation\<close>.
\<close>

definition expire_step :: "(int \<Rightarrow> bool) \<Rightarrow> int \<Rightarrow> order \<Rightarrow> session \<Rightarrow> session" where
  "expire_step send oid ord s =
     refund_bonus send ord
       ((snd (release_reservation oid ''Reservation timeout expired'' (Some s) (base s)))
          \<lparr>work := modify_order oid (\<lambda>row. row\<lparr>order_status := ''expired''\<rparr>)
             (work (snd (release_reservation oid ''Reservation timeout expired'' (Some s) (base s))))\<rparr>)"

section \<open>Properties\<close>

subsection \<open>Sessions and tables\<close>

lemma get_order_modify [simp]:
  "get_order (modify_order i f db) j =
     (if j = i then map_option f (get_order db i) else get_order db j)"
  by (auto simp: get_order_def modify_order_def map_of_map_entry split: option.splits)

lemma modify_order_frame [simp]:
  "goods_tbl (modify_order i f db) = goods_tbl db"
  "inventory_log_tbl (modify_order i f db) = inventory_log_tbl db"
  "bot_settings (modify_order i f db) = bot_settings db"
  "bonus_balance (modify_order i f db) = bonus_balance db"
  "bitcoin_tbl (modify_order i f db) = bitcoin_tbl db"
  by (simp_all add: modify_order_def)

lemma set_goods_frame [simp]:
  "goods_tbl (set_goods n g db) = (goods_tbl db)(n \<mapsto> g)"
  "order_tbl (set_goods n g db) = order_tbl db"
  "inventory_log_tbl (set_goods n g db) = inventory_log_tbl db"
  "bot_settings (set_goods n g db) = bot_settings db"
  "bonus_balance (set_goods n g db) = bonus_balance db"
  "bitcoin_tbl (set_goods n g db) = bitcoin_tbl db"
  "get_order (set_goods n g db) = get_order db"
  by (simp_all add: set_goods_def get_order_def fun_eq_iff)

lemma log_inventory_change_frame [simp]:
  "goods_tbl (log_inventory_change n c q oid a cm db) = goods_tbl db"
  "order_tbl (log_inventory_change n c q oid a cm db) = order_tbl db"
  "bot_settings (log_inventory_change n c q oid a cm db) = bot_settings db"
  "bonus_balance (log_inventory_change n c q oid a cm db) = bonus_balance db"
  "bitcoin_tbl (log_inventory_change n c q oid a cm db) = bitcoin_tbl db"
  "get_order (log_inventory_change n c q oid a cm db) = get_order db"
  by (simp_all add: log_inventory_change_def get_order_def fun_eq_iff)

lemma distinct_names_head:
  "distinct (map item_name (a # its)) \<Longrightarrow> it \<in> set its \<Longrightarrow> item_name it \<noteq> item_name a"
proof
  assume d: "distinct (map item_name (a # its))" and m: "it \<in> set its"
    and e: "item_name it = item_name a"
  from m have "item_name it \<in> item_name ` set its" by (rule imageI)
  with e d show False by simp
qed

lemma reserve_items_tables:
  "reserve_items oid ref pm its db = Inr db' \<Longrightarrow>
     order_tbl db' = order_tbl db \<and> bot_settings db' = bot_settings db \<and>
     bonus_balance db' = bonus_balance db \<and> bitcoin_tbl db' = bitcoin_tbl db"
  by (induction its arbitrary: db) (auto simp: Let_def split: option.splits if_splits)

lemma reserve_items_other:
  "reserve_items oid ref pm its db = Inr db' \<Longrightarrow> n \<notin> item_name ` set its \<Longrightarrow>
     goods_tbl db' n = goods_tbl db n"
  by (induction its arbitrary: db) (auto simp: Let_def split: option.splits if_splits)

lemma reserve_items_touched:
  "reserve_items oid ref pm its db = Inr db' \<Longrightarrow> distinct (map item_name its) \<Longrightarrow>
     it \<in> set its \<Longrightarrow>
     \<exists>g. goods_tbl db (item_name it) = Some g \<and>
         quantity it \<le> stock_quantity g - reserved_quantity g \<and>
         goods_tbl db' (item_name it) =
           Some (g\<lparr>reserved_quantity := reserved_quantity g + quantity it\<rparr>)"
proof (induction its arbitrary: db)
  case Nil
  then show ?case by simp
next
  case (Cons a its)
  from Cons.prems(1) obtain g where g: "goods_tbl db (item_name a) = Some g"
    and ok: "\<not> stock_quantity g - reserved_quantity g < quantity a"
    and rest: "reserve_items oid ref pm its
        (log_inventory_change (item_name a) ''reserve'' (quantity a) (Some oid) None
           (Reserved_for ref pm)
           (set_goods (item_name a)
              (g\<lparr>reserved_quantity := reserved_quantity g + quantity a\<rparr>) db)) = Inr db'"
    by (auto simp: Let_def split: option.splits if_splits)
  show ?case
  proof (cases "it = a")
    case True
    have "item_name a \<notin> item_name ` set its" using Cons.prems(2) by auto
    from reserve_items_other[OF rest this] g ok True show ?thesis by simp
  next
    case False
    then have mem: "it \<in> set its" using Cons.prems(3) by simp
    have ne: "item_name it \<noteq> item_name a" using Cons.prems(2) mem by (rule distinct_names_head)
    from Cons.IH[OF rest _ mem] Cons.prems(2) ne show ?thesis by simp
  qed
qed


lemma reserve_items_fails:
  "reserve_items oid ref pm its db = Inl msg \<Longrightarrow> distinct (map item_name its) \<Longrightarrow>
   \<exists>bad\<in>set its.
      (goods_tbl db (item_name bad) = None \<and> msg = Item_not_found (item_name bad)) \<or>
      (\<exists>g. goods_tbl db (item_name bad) = Some g \<and>
           stock_quantity g - reserved_quantity g < quantity bad \<and>
           msg = Insufficient_stock (item_name bad)
                   (stock_quantity g - reserved_quantity g) (quantity bad))"
proof (induction its arbitrary: db)
  case Nil
  then show ?case by simp
next
  case (Cons a its)
  show ?case
  proof (cases "goods_tbl db (item_name a)")
    case None
    with Cons.prems show ?thesis by auto
  next
    case (Some g)
    show ?thesis
    proof (cases "stock_quantity g - reserved_quantity g < quantity a")
      case True
      with Some Cons.prems show ?thesis by (auto simp: Let_def)
    next
      case False
      let ?db = "log_inventory_change (item_name a) ''reserve'' (quantity a) (Some oid) None
           (Reserved_for ref pm)
           (set_goods (item_name a)
              (g\<lparr>reserved_quantity := reserved_quantity g + quantity a\<rparr>) db)"
      from False Some Cons.prems(1) have "reserve_items oid ref pm its ?db = Inl msg"
        by (simp add: Let_def)
      from Cons.IH[OF this] Cons.prems(2) obtain bad where bad: "bad \<in> set its"
        and b: "(goods_tbl ?db (item_name bad) = None \<and> msg = Item_not_found (item_name bad)) \<or>
      (\<exists>g. goods_tbl ?db (item_name bad) = Some g \<and>
           stock_quantity g - reserved_quantity g < quantity bad \<and>
           msg = Insufficient_stock (item_name bad)
                   (stock_quantity g - reserved_quantity g) (quantity bad))" by auto
      have "item_name bad \<noteq> item_name a" using Cons.prems(2) bad by (rule distinct_names_head)
      then have "goods_tbl ?db (item_name bad) = goods_tbl db (item_name bad)" by simp
      with b bad show ?thesis by auto
    qed
  qed
qed


lemma session_simps [simp]:
  "base (commit s) = work s" "work (commit s) = work s" "effects (commit s) = effects s @ [Commit]"
  "base (rollback s) = base s" "work (rollback s) = base s" "effects (rollback s) = effects s @ [Rollback]"
  "base (close s) = base s" "work (close s) = base s" "effects (close s) = effects s @ [Close]"
  "base (new_session db) = db" "work (new_session db) = db" "effects (new_session db) = []"
  by (simp_all add: commit_def rollback_def close_def new_session_def)

lemma session_or_new_simps [simp]:
  "session_or_new None db = new_session db" "session_or_new (Some s) db = s"
  by (simp_all add: session_or_new_def)

lemma reserve_items_first_offender:
  "reserve_items oid ref pm its db = Inl msg \<Longrightarrow> distinct (map item_name its) \<Longrightarrow>
   \<exists>pre bad post. its = pre @ bad # post \<and>
      (\<forall>x\<in>set pre. \<exists>g. goods_tbl db (item_name x) = Some g \<and>
           quantity x \<le> stock_quantity g - reserved_quantity g) \<and>
      ((goods_tbl db (item_name bad) = None \<and> msg = Item_not_found (item_name bad)) \<or>
       (\<exists>g. goods_tbl db (item_name bad) = Some g \<and>
            stock_quantity g - reserved_quantity g < quantity bad \<and>
            msg = Insufficient_stock (item_name bad)
                    (stock_quantity g - reserved_quantity g) (quantity bad)))"
proof (induction its arbitrary: db)
  case Nil
  then show ?case by simp
next
  case (Cons a its)
  show ?case
  proof (cases "goods_tbl db (item_name a)")
    case None
    with Cons.prems(1) have "msg = Item_not_found (item_name a)" by simp
    with None show ?thesis by (intro exI[of _ "[]"] exI[of _ a] exI[of _ its]) simp
  next
    case (Some g)
    show ?thesis
    proof (cases "stock_quantity g - reserved_quantity g < quantity a")
      case True
      with Some Cons.prems(1) have "msg = Insufficient_stock (item_name a)
          (stock_quantity g - reserved_quantity g) (quantity a)" by (simp add: Let_def)
      with Some True show ?thesis by (intro exI[of _ "[]"] exI[of _ a] exI[of _ its]) simp
    next
      case False
      let ?db = "log_inventory_change (item_name a) ''reserve'' (quantity a) (Some oid) None
           (Reserved_for ref pm)
           (set_goods (item_name a)
              (g\<lparr>reserved_quantity := reserved_quantity g + quantity a\<rparr>) db)"
      from False Some Cons.prems(1) have "reserve_items oid ref pm its ?db = Inl msg"
        by (simp add: Let_def)
      from Cons.IH[OF this] Cons.prems(2) obtain pre bad post where
        split: "its = pre @ bad # post"
        and pre: "\<forall>x\<in>set pre. \<exists>g. goods_tbl ?db (item_name x) = Some g \<and>
           quantity x \<le> stock_quantity g - reserved_quantity g"
        and b: "(goods_tbl ?db (item_name bad) = None \<and> msg = Item_not_found (item_name bad)) \<or>
          (\<exists>g. goods_tbl ?db (item_name bad) = Some g \<and>
             stock_quantity g - reserved_quantity g < quantity bad \<and>
             msg = Insufficient_stock (item_name bad)
                   (stock_quantity g - reserved_quantity g) (quantity bad))"
        by auto
      have same: "goods_tbl ?db (item_name x) = goods_tbl db (item_name x)" if "x \<in> set its" for x
      proof -
        from Cons.prems(2) that have "item_name x \<noteq> item_name a" by (rule distinct_names_head)
        then show ?thesis by simp
      qed
      have "\<forall>x\<in>set (a # pre). \<exists>g. goods_tbl db (item_name x) = Some g \<and>
           quantity x \<le> stock_quantity g - reserved_quantity g"
        using pre same split Some False by auto
      moreover have "(goods_tbl db (item_name bad) = None \<and> msg = Item_not_found (item_name bad)) \<or>
          (\<exists>g. goods_tbl db (item_name bad) = Some g \<and>
             stock_quantity g - reserved_quantity g < quantity bad \<and>
             msg = Insufficient_stock (item_name bad)
                   (stock_quantity g - reserved_quantity g) (quantity bad))"
        using b same[of bad] split by simp
      moreover have "a # its = (a # pre) @ bad # post" using split by simp
      ultimately show ?thesis by blast
    qed
  qed
qed


subsection \<open>Reserve: the four ways out\<close>

lemma plus_hours_Some:
  "plus_hours now h = Some deadline \<Longrightarrow> deadline = now + 3600000000 * h"
  by (auto simp: plus_hours_def timedelta_hours_def datetime_plus_def split: if_splits)

lemma reserve_inventory_missing:
  assumes "get_order (work (session_or_new sess db)) oid = None"
  shows "fst (reserve_inventory to_int now oid its pm sess db) = (False, Order_not_found)"
    and "work (snd (reserve_inventory to_int now oid its pm sess db)) =
           (if sess = None then db else work (session_or_new sess db))"
    and "effects (snd (reserve_inventory to_int now oid its pm sess db)) =
           effects (session_or_new sess db) @ (if sess = None then [Close] else [])"
    and "base (snd (reserve_inventory to_int now oid its pm sess db)) = base (session_or_new sess db)"
  using assms by (cases sess; simp add: reserve_inventory_def finally_close_def Let_def)+

lemma reserve_inventory_failure:
  assumes "get_order (work (session_or_new sess db)) oid = Some ord"
    and "reserve_items oid (order_ref_of ord oid)
           (case pm of None \<Rightarrow> payment_method ord | Some p \<Rightarrow> p) its
           (work (session_or_new sess db)) = Inl msg"
  shows "fst (reserve_inventory to_int now oid its pm sess db) = (False, msg)"
    and "work (snd (reserve_inventory to_int now oid its pm sess db)) = base (session_or_new sess db)"
    and "base (snd (reserve_inventory to_int now oid its pm sess db)) = base (session_or_new sess db)"
    and "effects (snd (reserve_inventory to_int now oid its pm sess db)) =
           effects (session_or_new sess db) @ Rollback # (if sess = None then [Close] else [])"
  using assms by (cases sess; simp add: reserve_inventory_def finally_close_def Let_def)+

lemma reserve_inventory_overflow:
  assumes "get_order (work (session_or_new sess db)) oid = Some ord"
    and "reserve_items oid (order_ref_of ord oid)
           (case pm of None \<Rightarrow> payment_method ord | Some p \<Rightarrow> p) its
           (work (session_or_new sess db)) = Inr db'"
    and "plus_hours now (get_bot_setting to_int (base (session_or_new sess db))
                           ''cash_order_timeout_hours'' 24) = None"
  shows "fst (reserve_inventory to_int now oid its pm sess db) = (False, Error_reserving)"
    and "work (snd (reserve_inventory to_int now oid its pm sess db)) =
           (if sess = None then db else db')"
    and "base (snd (reserve_inventory to_int now oid its pm sess db)) = base (session_or_new sess db)"
    and "effects (snd (reserve_inventory to_int now oid its pm sess db)) =
           effects (session_or_new sess db) @ (if sess = None then [Rollback, Close] else [])"
  using assms by (cases sess; simp add: reserve_inventory_def finally_close_def Let_def)+

lemma reserve_inventory_success:
  assumes "get_order (work (session_or_new sess db)) oid = Some ord"
    and "reserve_items oid (order_ref_of ord oid)
           (case pm of None \<Rightarrow> payment_method ord | Some p \<Rightarrow> p) its
           (work (session_or_new sess db)) = Inr db'"
    and "plus_hours now (get_bot_setting to_int (base (session_or_new sess db))
                           ''cash_order_timeout_hours'' 24) = Some deadline"
  shows "fst (reserve_inventory to_int now oid its pm sess db) = (True, Reserved_successfully)"
    and "work (snd (reserve_inventory to_int now oid its pm sess db)) =
           modify_order oid (\<lambda>row. row\<lparr>reserved_until := Some deadline,
                                         order_status := ''reserved''\<rparr>) db'"
    and "effects (snd (reserve_inventory to_int now oid its pm sess db)) =
           effects (session_or_new sess db) @ (if sess = None then [Commit, Close] else [])"
    and "base (snd (reserve_inventory to_int now oid its pm sess db)) =
           (if sess = None then work (snd (reserve_inventory to_int now oid its pm sess db))
            else base (session_or_new sess db))"
  using assms by (cases sess; simp add: reserve_inventory_def finally_close_def Let_def)+

lemma reserve_inventory_True:
  assumes "reserve_inventory to_int now oid its pm sess db = ((True, msg), s')"
    and "get_order (work (session_or_new sess db)) oid = Some ord"
  shows "\<exists>db' deadline.
           reserve_items oid (order_ref_of ord oid)
             (case pm of None \<Rightarrow> payment_method ord | Some p \<Rightarrow> p) its
             (work (session_or_new sess db)) = Inr db' \<and>
           plus_hours now (get_bot_setting to_int (base (session_or_new sess db))
                             ''cash_order_timeout_hours'' 24) = Some deadline \<and>
           work s' = modify_order oid (\<lambda>row. row\<lparr>reserved_until := Some deadline,
                                                  order_status := ''reserved''\<rparr>) db'"
proof (cases "reserve_items oid (order_ref_of ord oid)
           (case pm of None \<Rightarrow> payment_method ord | Some p \<Rightarrow> p) its
           (work (session_or_new sess db))")
  case (Inl m)
  from reserve_inventory_failure(1)[OF assms(2) Inl, of to_int now] assms(1) show ?thesis by simp
next
  case (Inr d)
  show ?thesis
  proof (cases "plus_hours now (get_bot_setting to_int (base (session_or_new sess db))
                           ''cash_order_timeout_hours'' 24)")
    case None
    from reserve_inventory_overflow(1)[OF assms(2) Inr None] assms(1) show ?thesis by simp
  next
    case (Some deadline)
    from reserve_inventory_success(2)[OF assms(2) Inr Some] assms(1) Inr Some
    show ?thesis by simp
  qed
qed

lemmas sample_defs = sample_db_def sample_order_def line_def stocked_def

lemmas date_defs = plus_hours_def timedelta_hours_def datetime_plus_def datetime_min_def
  datetime_max_def

lemmas engine_defs = reserve_inventory_def release_reservation_def deduct_inventory_def
  add_inventory_def finally_close_def get_order_def order_ref_of_def modify_order_def
  set_goods_def log_inventory_change_def get_bot_setting_def deadline_of_def known_ints_def
  date_defs Let_def


subsection \<open>Reserve: the deadline\<close>

text \<open>
  Whatever payment method is passed or stored, a successful \<open>reserve_inventory\<close> stores
  the time of the call plus \<open>cash_order_timeout_hours\<close> hours: the committed setting when
  one is stored and \<open>int\<close> accepts it, 24 otherwise.
\<close>

lemma reserve_deadline:
  assumes "reserve_inventory to_int now order_id its pm sess db = ((True, msg), s')"
    and "get_order (work (session_or_new sess db)) order_id = Some ord"
  shows "deadline_of s' order_id =
           Some (now + 3600000000 * get_bot_setting to_int (base (session_or_new sess db))
                                      ''cash_order_timeout_hours'' 24)"
proof -
  from reserve_inventory_True[OF assms] obtain db' deadline where
    r: "reserve_items order_id (order_ref_of ord order_id)
          (case pm of None \<Rightarrow> payment_method ord | Some p \<Rightarrow> p) its
          (work (session_or_new sess db)) = Inr db'"
    and d: "plus_hours now (get_bot_setting to_int (base (session_or_new sess db))
              ''cash_order_timeout_hours'' 24) = Some deadline"
    and w: "work s' = modify_order order_id
              (\<lambda>row. row\<lparr>reserved_until := Some deadline, order_status := ''reserved''\<rparr>) db'"
    by blast
  have "get_order db' order_id = Some ord"
    using reserve_items_tables[OF r] assms(2) by (simp add: get_order_def)
  with w plus_hours_Some[OF d] show ?thesis by (simp add: deadline_of_def)
qed

text \<open>
  Claim C1 on the code, at a Bitcoin order. The docstring of \<open>reserve_inventory\<close> says the
  timeout is set by the payment method, and its caller in \<open>order_handler.py\<close> expects seven
  days for Bitcoin; the function reads \<open>cash_order_timeout_hours\<close> for every method. A
  Bitcoin order reserved at time 1000 gets the deadline 1000 plus 24 hours when no setting
  is stored and 1000 plus 48 hours when the setting is 48: each time the deadline of the
  same call with the method \<open>cash\<close>, and never 1000 plus 7 days.
\<close>

theorem reserve_deadline_bitcoin:
  "fst (reserve_inventory known_ints 1000 1 [line ''Widget'' 3] (Some ''bitcoin'') None
          (sample_db [(''Widget'', stocked 10 0)]
             [(1, sample_order ''pending'' ''bitcoin'' None [line ''Widget'' 3])]))
     = (True, Reserved_successfully) \<and>
   deadline_of (snd (reserve_inventory known_ints 1000 1 [line ''Widget'' 3] (Some ''bitcoin'') None
          (sample_db [(''Widget'', stocked 10 0)]
             [(1, sample_order ''pending'' ''bitcoin'' None [line ''Widget'' 3])]))) 1
     = Some (1000 + 24 * 3600000000) \<and>
   deadline_of (snd (reserve_inventory known_ints 1000 1 [line ''Widget'' 3] (Some ''cash'') None
          (sample_db [(''Widget'', stocked 10 0)]
             [(1, sample_order ''pending'' ''bitcoin'' None [line ''Widget'' 3])]))) 1
     = Some (1000 + 24 * 3600000000) \<and>
   deadline_of (snd (reserve_inventory known_ints 1000 1 [line ''Widget'' 3] (Some ''bitcoin'') None
          ((sample_db [(''Widget'', stocked 10 0)]
             [(1, sample_order ''pending'' ''bitcoin'' None [line ''Widget'' 3])])
           \<lparr>bot_settings := [''cash_order_timeout_hours'' \<mapsto> ''48'']\<rparr>))) 1
     = Some (1000 + 48 * 3600000000) \<and>
   deadline_of (snd (reserve_inventory known_ints 1000 1 [line ''Widget'' 3] (Some ''cash'') None
          ((sample_db [(''Widget'', stocked 10 0)]
             [(1, sample_order ''pending'' ''bitcoin'' None [line ''Widget'' 3])])
           \<lparr>bot_settings := [''cash_order_timeout_hours'' \<mapsto> ''48'']\<rparr>))) 1
     = Some (1000 + 48 * 3600000000) \<and>
   (1000 + 24 * 3600000000 :: int) \<noteq> 1000 + 7 * 24 * 3600000000 \<and>
   (1000 + 48 * 3600000000 :: int) \<noteq> 1000 + 7 * 24 * 3600000000"
  by (simp add: sample_defs engine_defs new_session_def commit_def close_def)


subsection \<open>Reserve: all or nothing\<close>

text \<open>
  Claim C2, as amended. Let the order exist and the request name each item once. If some
  requested item is in the catalogue with less available stock
  (\<open>stock_quantity - reserved_quantity\<close>) than requested, \<open>reserve_inventory\<close> returns a
  failure that names the first offending item in the order of the request: every item in
  front of it exists with enough available stock, and it is either missing or short of
  stock, then named together with its available and its requested quantity. The session is
  rolled back: its working copy is the committed database again, the committed database is
  untouched, and with a session of its own the database afterwards is the one before the
  call, so no requested item keeps a changed \<open>reserved_quantity\<close>.
\<close>

theorem reserve_all_or_nothing:
  assumes "get_order (work (session_or_new sess db)) order_id = Some ord"
    and "distinct (map item_name its)"
    and "it \<in> set its"
    and "goods_tbl (work (session_or_new sess db)) (item_name it) = Some g"
    and "stock_quantity g - reserved_quantity g < quantity it"
  shows "\<exists>pre bad post msg s'.
      its = pre @ bad # post \<and>
      (\<forall>x\<in>set pre. \<exists>gx. goods_tbl (work (session_or_new sess db)) (item_name x) = Some gx \<and>
          quantity x \<le> stock_quantity gx - reserved_quantity gx) \<and>
      reserve_inventory to_int now order_id its pm sess db = ((False, msg), s') \<and>
      ((goods_tbl (work (session_or_new sess db)) (item_name bad) = None \<and>
          msg = Item_not_found (item_name bad)) \<or>
       (\<exists>g'. goods_tbl (work (session_or_new sess db)) (item_name bad) = Some g' \<and>
          stock_quantity g' - reserved_quantity g' < quantity bad \<and>
          msg = Insufficient_stock (item_name bad)
                  (stock_quantity g' - reserved_quantity g') (quantity bad))) \<and>
      work s' = base (session_or_new sess db) \<and> base s' = base (session_or_new sess db) \<and>
      (sess = None \<longrightarrow> work s' = db)"
proof -
  let ?s = "session_or_new sess db"
  let ?pm = "case pm of None \<Rightarrow> payment_method ord | Some p \<Rightarrow> p"
  let ?res = "reserve_inventory to_int now order_id its pm sess db"
  obtain msg where r: "reserve_items order_id (order_ref_of ord order_id) ?pm its (work ?s) = Inl msg"
  proof (cases "reserve_items order_id (order_ref_of ord order_id) ?pm its (work ?s)")
    case (Inl m)
    then show ?thesis using that by blast
  next
    case (Inr db')
    from reserve_items_touched[OF Inr assms(2,3)] assms(4,5) show ?thesis by auto
  qed
  note f = reserve_inventory_failure[OF assms(1) r, of to_int now]
  from reserve_items_first_offender[OF r assms(2)] obtain pre bad post where
    split: "its = pre @ bad # post"
    and pre: "\<forall>x\<in>set pre. \<exists>gx. goods_tbl (work ?s) (item_name x) = Some gx \<and>
          quantity x \<le> stock_quantity gx - reserved_quantity gx"
    and shape: "(goods_tbl (work ?s) (item_name bad) = None \<and> msg = Item_not_found (item_name bad)) \<or>
       (\<exists>g'. goods_tbl (work ?s) (item_name bad) = Some g' \<and>
          stock_quantity g' - reserved_quantity g' < quantity bad \<and>
          msg = Insufficient_stock (item_name bad)
                  (stock_quantity g' - reserved_quantity g') (quantity bad))"
    by blast
  have "?res = ((False, msg), snd ?res)" using f(1) by (metis prod.collapse)
  moreover have "sess = None \<longrightarrow> work (snd ?res) = db" using f(2) by auto
  ultimately show ?thesis using split pre shape f(2,3) by blast
qed

text \<open>
  Claim C2 at a concrete input: three widgets (ten in stock) and five gadgets (three
  available) are requested; the failure names the gadgets and the widgets stay unreserved.
\<close>

theorem reserve_all_or_nothing_witness:
  "\<exists>s'. reserve_inventory known_ints 1000 1 [line ''Widget'' 3, line ''Gadget'' 5] None None
          (sample_db [(''Widget'', stocked 10 0), (''Gadget'', stocked 4 1)]
             [(1, sample_order ''pending'' ''cash'' None [line ''Widget'' 3, line ''Gadget'' 5])])
       = ((False, Insufficient_stock ''Gadget'' 3 5), s') \<and>
     work s' = sample_db [(''Widget'', stocked 10 0), (''Gadget'', stocked 4 1)]
             [(1, sample_order ''pending'' ''cash'' None [line ''Widget'' 3, line ''Gadget'' 5])]"
proof -
  let ?its = "[line ''Widget'' 3, line ''Gadget'' 5]"
  let ?ord = "sample_order ''pending'' ''cash'' None ?its"
  let ?db = "sample_db [(''Widget'', stocked 10 0), (''Gadget'', stocked 4 1)] [(1, ?ord)]"
  have h1: "get_order (work (session_or_new None ?db)) 1 = Some ?ord"
    by (simp add: get_order_def sample_db_def)
  have h2: "distinct (map item_name ?its)" by (simp add: line_def)
  have h3: "line ''Gadget'' 5 \<in> set ?its" by simp
  have h4: "goods_tbl (work (session_or_new None ?db)) (item_name (line ''Gadget'' 5))
              = Some (stocked 4 1)"
    by (simp add: sample_defs)
  have h5: "stock_quantity (stocked 4 1) - reserved_quantity (stocked 4 1)
              < quantity (line ''Gadget'' 5)"
    by (simp add: sample_defs)
  from reserve_all_or_nothing [OF h1 h2 h3 h4 h5, of known_ints 1000 None]
  obtain pre bad post msg s' where
    split: "?its = pre @ bad # post"
    and r: "reserve_inventory known_ints 1000 1 ?its None None ?db = ((False, msg), s')"
    and shape: "(goods_tbl (work (session_or_new None ?db)) (item_name bad) = None \<and>
          msg = Item_not_found (item_name bad)) \<or>
       (\<exists>g'. goods_tbl (work (session_or_new None ?db)) (item_name bad) = Some g' \<and>
          stock_quantity g' - reserved_quantity g' < quantity bad \<and>
          msg = Insufficient_stock (item_name bad)
                  (stock_quantity g' - reserved_quantity g') (quantity bad))"
    and w: "work s' = base (session_or_new None ?db)"
    by blast
  from split have "bad \<in> set ?its" by (metis in_set_conv_decomp)
  with shape have "msg = Insufficient_stock ''Gadget'' 3 5"
    by (auto simp: sample_defs)
  with r w show ?thesis by simp
qed

text \<open>
  Claim C2 as stated fails in two ways. When two items are short, the failure names only
  the first: eleven widgets (ten available) and five gadgets (three available) give a
  failure about the widgets, with no word of the gadgets. And when a request names an item
  twice, an earlier line can make room for a later one: on a stock of two widgets, a line
  of -5 widgets followed by a line of three widgets succeeds and leaves a reserved count of
  -2, although three is more than the two available.
\<close>

theorem reserve_all_or_nothing_counterexample:
  "fst (reserve_inventory known_ints 1000 1 [line ''Widget'' 11, line ''Gadget'' 5] None None
          (sample_db [(''Widget'', stocked 10 0), (''Gadget'', stocked 4 1)]
             [(1, sample_order ''pending'' ''cash'' None [line ''Widget'' 11, line ''Gadget'' 5])]))
     = (False, Insufficient_stock ''Widget'' 10 11) \<and>
   fst (reserve_inventory known_ints 1000 1 [line ''Widget'' (- 5), line ''Widget'' 3] None None
          (sample_db [(''Widget'', stocked 2 0)]
             [(1, sample_order ''pending'' ''cash'' None [line ''Widget'' 3])]))
     = (True, Reserved_successfully) \<and>
   goods_tbl (base (snd (reserve_inventory known_ints 1000 1
          [line ''Widget'' (- 5), line ''Widget'' 3] None None
          (sample_db [(''Widget'', stocked 2 0)]
             [(1, sample_order ''pending'' ''cash'' None [line ''Widget'' 3])])))) ''Widget''
     = Some (stocked 2 (- 2))"
  by (simp add: sample_defs engine_defs new_session_def commit_def rollback_def close_def)


subsection \<open>Reserve: no check of the order status\<close>





subsection \<open>Release, deduct and restock: the loops and the session calls\<close>

lemma release_items_tables:
  "order_tbl (release_items oid reason ref its db) = order_tbl db \<and>
   bot_settings (release_items oid reason ref its db) = bot_settings db \<and>
   bonus_balance (release_items oid reason ref its db) = bonus_balance db \<and>
   bitcoin_tbl (release_items oid reason ref its db) = bitcoin_tbl db"
  by (induction its arbitrary: db) (auto simp: Let_def split: option.splits)

lemma release_items_other:
  "n \<notin> item_name ` set its \<Longrightarrow>
     goods_tbl (release_items oid reason ref its db) n = goods_tbl db n"
  by (induction its arbitrary: db) (auto simp: Let_def split: option.splits)

lemma release_items_touched:
  "distinct (map item_name its) \<Longrightarrow> it \<in> set its \<Longrightarrow>
     goods_tbl (release_items oid reason ref its db) (item_name it) =
       map_option (\<lambda>g. g\<lparr>reserved_quantity := max 0 (reserved_quantity g - quantity it)\<rparr>)
         (goods_tbl db (item_name it))"
proof (induction its arbitrary: db)
  case Nil
  then show ?case by simp
next
  case (Cons a its)
  have notin: "item_name a \<notin> item_name ` set its" using Cons.prems(1) by simp
  show ?case
  proof (cases "it = a")
    case True
    then show ?thesis
      using release_items_other[OF notin]
      by (cases "goods_tbl db (item_name a)") (auto simp: Let_def max_def)
  next
    case False
    then have mem: "it \<in> set its" using Cons.prems(2) by simp
    have ne: "item_name it \<noteq> item_name a" using Cons.prems(1) mem by (rule distinct_names_head)
    have d: "distinct (map item_name its)" using Cons.prems(1) by simp
    show ?thesis
      using Cons.IH[OF d mem] ne
      by (cases "goods_tbl db (item_name a)") (auto simp: Let_def)
  qed
qed

lemma release_reservation_found:
  assumes "get_order (work (session_or_new sess db)) oid = Some ord"
  shows "fst (release_reservation oid reason sess db) = (True, Released_successfully)"
    and "work (snd (release_reservation oid reason sess db)) =
           modify_order oid (\<lambda>row. row\<lparr>reserved_until := None\<rparr>)
             (release_items oid reason (order_ref_of ord oid) (items ord)
                (work (session_or_new sess db)))"
    and "effects (snd (release_reservation oid reason sess db)) =
           effects (session_or_new sess db) @ (if sess = None then [Commit, Close] else [])"
    and "base (snd (release_reservation oid reason sess db)) =
           (if sess = None then work (snd (release_reservation oid reason sess db))
            else base (session_or_new sess db))"
  using assms by (cases sess; simp add: release_reservation_def finally_close_def Let_def)+

lemma release_reservation_missing:
  assumes "get_order (work (session_or_new sess db)) oid = None"
  shows "fst (release_reservation oid reason sess db) = (False, Order_not_found)"
    and "work (snd (release_reservation oid reason sess db)) =
           (if sess = None then db else work (session_or_new sess db))"
    and "effects (snd (release_reservation oid reason sess db)) =
           effects (session_or_new sess db) @ (if sess = None then [Close] else [])"
    and "base (snd (release_reservation oid reason sess db)) = base (session_or_new sess db)"
  using assms by (cases sess; simp add: release_reservation_def finally_close_def Let_def)+

lemma deduct_items_tables:
  "deduct_items oid admin ref its db = Inr db' \<Longrightarrow>
     order_tbl db' = order_tbl db \<and> bot_settings db' = bot_settings db \<and>
     bonus_balance db' = bonus_balance db \<and> bitcoin_tbl db' = bitcoin_tbl db"
  by (induction its arbitrary: db) (auto simp: Let_def split: option.splits if_splits)

lemma deduct_items_other:
  "deduct_items oid admin ref its db = Inr db' \<Longrightarrow> n \<notin> item_name ` set its \<Longrightarrow>
     goods_tbl db' n = goods_tbl db n"
  by (induction its arbitrary: db) (auto simp: Let_def split: option.splits if_splits)

lemma deduct_items_touched:
  "deduct_items oid admin ref its db = Inr db' \<Longrightarrow> distinct (map item_name its) \<Longrightarrow>
     it \<in> set its \<Longrightarrow>
     \<exists>g. goods_tbl db (item_name it) = Some g \<and> quantity it \<le> stock_quantity g \<and>
         goods_tbl db' (item_name it) =
           Some (g\<lparr>stock_quantity := stock_quantity g - quantity it,
                  reserved_quantity := max 0 (reserved_quantity g - quantity it)\<rparr>)"
proof (induction its arbitrary: db)
  case Nil
  then show ?case by simp
next
  case (Cons a its)
  from Cons.prems(1) obtain g where g: "goods_tbl db (item_name a) = Some g"
    and ok: "\<not> stock_quantity g - quantity a < 0"
    and rest: "deduct_items oid admin ref its
        (log_inventory_change (item_name a) ''deduct'' (- quantity a) (Some oid) admin
           (Order_confirmed ref)
           (set_goods (item_name a)
              (g\<lparr>stock_quantity := stock_quantity g - quantity a,
                 reserved_quantity := (if reserved_quantity g - quantity a < 0 then 0
                                       else reserved_quantity g - quantity a)\<rparr>) db)) = Inr db'"
    by (auto simp: Let_def split: option.splits if_splits)
  show ?case
  proof (cases "it = a")
    case True
    have "item_name a \<notin> item_name ` set its" using Cons.prems(2) by auto
    from deduct_items_other[OF rest this] g ok True show ?thesis by (simp add: max_def)
  next
    case False
    then have mem: "it \<in> set its" using Cons.prems(3) by simp
    have ne: "item_name it \<noteq> item_name a" using Cons.prems(2) mem by (rule distinct_names_head)
    from Cons.IH[OF rest _ mem] Cons.prems(2) ne show ?thesis by simp
  qed
qed

lemma deduct_items_succeeds:
  "distinct (map item_name its) \<Longrightarrow>
   \<forall>it\<in>set its. \<exists>g. goods_tbl db (item_name it) = Some g \<and> quantity it \<le> stock_quantity g \<Longrightarrow>
   \<exists>db'. deduct_items oid admin ref its db = Inr db'"
proof (induction its arbitrary: db)
  case Nil
  then show ?case by simp
next
  case (Cons a its)
  from Cons.prems(2) obtain g where g: "goods_tbl db (item_name a) = Some g"
    and ok: "quantity a \<le> stock_quantity g" by auto
  let ?db = "log_inventory_change (item_name a) ''deduct'' (- quantity a) (Some oid) admin
           (Order_confirmed ref)
           (set_goods (item_name a)
              (g\<lparr>stock_quantity := stock_quantity g - quantity a,
                 reserved_quantity := (if reserved_quantity g - quantity a < 0 then 0
                                       else reserved_quantity g - quantity a)\<rparr>) db)"
  have "\<forall>it\<in>set its. \<exists>g. goods_tbl ?db (item_name it) = Some g \<and> quantity it \<le> stock_quantity g"
  proof
    fix it assume mem: "it \<in> set its"
    with Cons.prems(1) have "item_name it \<noteq> item_name a" by (rule distinct_names_head)
    then have "goods_tbl ?db (item_name it) = goods_tbl db (item_name it)" by simp
    with Cons.prems(2) mem
    show "\<exists>g. goods_tbl ?db (item_name it) = Some g \<and> quantity it \<le> stock_quantity g" by simp
  qed
  with Cons.IH[of ?db] Cons.prems(1) obtain db' where "deduct_items oid admin ref its ?db = Inr db'"
    by auto
  with g ok show ?case by (simp add: Let_def)
qed

lemma deduct_items_fails:
  "deduct_items oid admin ref its db = Inl msg \<Longrightarrow> distinct (map item_name its) \<Longrightarrow>
   \<exists>bad\<in>set its.
      (goods_tbl db (item_name bad) = None \<and> msg = Item_not_found (item_name bad)) \<or>
      (\<exists>g. goods_tbl db (item_name bad) = Some g \<and> stock_quantity g < quantity bad \<and>
           msg = Stock_negative (item_name bad))"
proof (induction its arbitrary: db)
  case Nil
  then show ?case by simp
next
  case (Cons a its)
  show ?case
  proof (cases "goods_tbl db (item_name a)")
    case None
    with Cons.prems show ?thesis by auto
  next
    case (Some g)
    show ?thesis
    proof (cases "stock_quantity g - quantity a < 0")
      case True
      with Some Cons.prems show ?thesis by (auto simp: Let_def)
    next
      case False
      let ?db = "log_inventory_change (item_name a) ''deduct'' (- quantity a) (Some oid) admin
           (Order_confirmed ref)
           (set_goods (item_name a)
              (g\<lparr>stock_quantity := stock_quantity g - quantity a,
                 reserved_quantity := (if reserved_quantity g - quantity a < 0 then 0
                                       else reserved_quantity g - quantity a)\<rparr>) db)"
      from False Some Cons.prems(1) have "deduct_items oid admin ref its ?db = Inl msg"
        by (simp add: Let_def)
      from Cons.IH[OF this] Cons.prems(2) obtain bad where bad: "bad \<in> set its"
        and b: "(goods_tbl ?db (item_name bad) = None \<and> msg = Item_not_found (item_name bad)) \<or>
      (\<exists>g. goods_tbl ?db (item_name bad) = Some g \<and> stock_quantity g < quantity bad \<and>
           msg = Stock_negative (item_name bad))" by auto
      have "item_name bad \<noteq> item_name a" using Cons.prems(2) bad by (rule distinct_names_head)
      then have "goods_tbl ?db (item_name bad) = goods_tbl db (item_name bad)" by simp
      with b bad show ?thesis by auto
    qed
  qed
qed

lemma deduct_inventory_success:
  assumes "get_order (work (session_or_new sess db)) oid = Some ord"
    and "deduct_items oid admin (order_ref_of ord oid) (items ord)
           (work (session_or_new sess db)) = Inr db'"
  shows "fst (deduct_inventory oid admin sess db) = (True, Deducted_successfully)"
    and "work (snd (deduct_inventory oid admin sess db)) =
           modify_order oid (\<lambda>row. row\<lparr>reserved_until := None\<rparr>) db'"
    and "effects (snd (deduct_inventory oid admin sess db)) =
           effects (session_or_new sess db) @ (if sess = None then [Commit, Close] else [])"
    and "base (snd (deduct_inventory oid admin sess db)) =
           (if sess = None then work (snd (deduct_inventory oid admin sess db))
            else base (session_or_new sess db))"
  using assms by (cases sess; simp add: deduct_inventory_def finally_close_def Let_def)+

lemma deduct_inventory_failure:
  assumes "get_order (work (session_or_new sess db)) oid = Some ord"
    and "deduct_items oid admin (order_ref_of ord oid) (items ord)
           (work (session_or_new sess db)) = Inl msg"
  shows "fst (deduct_inventory oid admin sess db) = (False, msg)"
    and "work (snd (deduct_inventory oid admin sess db)) = base (session_or_new sess db)"
    and "base (snd (deduct_inventory oid admin sess db)) = base (session_or_new sess db)"
    and "effects (snd (deduct_inventory oid admin sess db)) =
           effects (session_or_new sess db) @ Rollback # (if sess = None then [Close] else [])"
  using assms by (cases sess; simp add: deduct_inventory_def finally_close_def Let_def)+

lemma deduct_inventory_missing:
  assumes "get_order (work (session_or_new sess db)) oid = None"
  shows "fst (deduct_inventory oid admin sess db) = (False, Order_not_found)"
    and "work (snd (deduct_inventory oid admin sess db)) =
           (if sess = None then db else work (session_or_new sess db))"
    and "effects (snd (deduct_inventory oid admin sess db)) =
           effects (session_or_new sess db) @ (if sess = None then [Close] else [])"
    and "base (snd (deduct_inventory oid admin sess db)) = base (session_or_new sess db)"
  using assms by (cases sess; simp add: deduct_inventory_def finally_close_def Let_def)+

lemma add_inventory_found:
  assumes "goods_tbl (work (session_or_new sess db)) name = Some g"
  shows "fst (add_inventory name qty admin cmt sess db) = (True, Added qty name)"
    and "goods_tbl (work (snd (add_inventory name qty admin cmt sess db))) =
           (goods_tbl (work (session_or_new sess db)))
             (name \<mapsto> g\<lparr>stock_quantity := stock_quantity g + qty\<rparr>)"
    and "effects (snd (add_inventory name qty admin cmt sess db)) =
           effects (session_or_new sess db) @ (if sess = None then [Commit, Close] else [])"
    and "base (snd (add_inventory name qty admin cmt sess db)) =
           (if sess = None then work (snd (add_inventory name qty admin cmt sess db))
            else base (session_or_new sess db))"
  using assms by (cases sess; simp add: add_inventory_def finally_close_def Let_def)+

lemma add_inventory_missing:
  assumes "goods_tbl (work (session_or_new sess db)) name = None"
  shows "fst (add_inventory name qty admin cmt sess db) = (False, Item_not_found name)"
    and "work (snd (add_inventory name qty admin cmt sess db)) =
           (if sess = None then db else work (session_or_new sess db))"
    and "effects (snd (add_inventory name qty admin cmt sess db)) =
           effects (session_or_new sess db) @ (if sess = None then [Close] else [])"
    and "base (snd (add_inventory name qty admin cmt sess db)) = base (session_or_new sess db)"
  using assms by (cases sess; simp add: add_inventory_def finally_close_def Let_def)+


subsection \<open>Composing with the caller's session\<close>

lemma reserve_items_message:
  "reserve_items oid ref pm its db = Inl msg \<Longrightarrow>
     msg \<noteq> Order_not_found \<and> msg \<noteq> Error_reserving"
  by (induction its arbitrary: db) (auto simp: Let_def split: option.splits if_splits)

lemma deduct_items_message:
  "deduct_items oid admin ref its db = Inl msg \<Longrightarrow> msg \<noteq> Order_not_found"
  by (induction its arbitrary: db) (auto simp: Let_def split: option.splits if_splits)

lemma reserve_inventory_effects:
  "effects (snd (reserve_inventory to_int now oid its pm sess db)) =
     effects (session_or_new sess db) @
     (if fst (fst (reserve_inventory to_int now oid its pm sess db)) then []
      else if snd (fst (reserve_inventory to_int now oid its pm sess db)) = Order_not_found then []
      else if snd (fst (reserve_inventory to_int now oid its pm sess db)) = Error_reserving
      then (if sess = None then [Rollback] else [])
      else [Rollback]) @
     (if sess = None
      then (if fst (fst (reserve_inventory to_int now oid its pm sess db))
            then [Commit, Close] else [Close])
      else [])"
proof (cases "get_order (work (session_or_new sess db)) oid")
  case None
  from reserve_inventory_missing(1,3)[OF None, of to_int now its pm]
  show ?thesis by (cases sess) auto
next
  case (Some ord)
  show ?thesis
  proof (cases "reserve_items oid (order_ref_of ord oid)
           (case pm of None \<Rightarrow> payment_method ord | Some p \<Rightarrow> p) its
           (work (session_or_new sess db))")
    case (Inl msg)
    from reserve_inventory_failure(1,4)[OF Some Inl, of to_int now] reserve_items_message[OF Inl]
    show ?thesis by (cases sess) auto
  next
    case (Inr db')
    show ?thesis
    proof (cases "plus_hours now (get_bot_setting to_int (base (session_or_new sess db))
                           ''cash_order_timeout_hours'' 24)")
      case None
      from reserve_inventory_overflow(1,4)[OF Some Inr None] show ?thesis by (cases sess) auto
    next
      case (Some deadline)
      from reserve_inventory_success(1,3)[OF \<open>get_order (work (session_or_new sess db)) oid = Some ord\<close>
          Inr Some]
      show ?thesis by (cases sess) auto
    qed
  qed
qed

lemma deduct_inventory_effects:
  "effects (snd (deduct_inventory oid admin sess db)) =
     effects (session_or_new sess db) @
     (if fst (fst (deduct_inventory oid admin sess db)) then []
      else if snd (fst (deduct_inventory oid admin sess db)) = Order_not_found then []
      else [Rollback]) @
     (if sess = None
      then (if fst (fst (deduct_inventory oid admin sess db)) then [Commit, Close] else [Close])
      else [])"
proof (cases "get_order (work (session_or_new sess db)) oid")
  case None
  from deduct_inventory_missing(1,3)[OF None, of admin] show ?thesis by (cases sess) auto
next
  case (Some ord)
  show ?thesis
  proof (cases "deduct_items oid admin (order_ref_of ord oid) (items ord)
           (work (session_or_new sess db))")
    case (Inl msg)
    from deduct_inventory_failure(1,4)[OF Some Inl] deduct_items_message[OF Inl]
    show ?thesis by (cases sess) auto
  next
    case (Inr db')
    from deduct_inventory_success(1,3)[OF Some Inr] show ?thesis by (cases sess) auto
  qed
qed

lemma release_reservation_effects:
  "effects (snd (release_reservation oid reason sess db)) =
     effects (session_or_new sess db) @
     (if sess = None
      then (if fst (fst (release_reservation oid reason sess db)) then [Commit, Close] else [Close])
      else [])"
proof (cases "get_order (work (session_or_new sess db)) oid")
  case None
  from release_reservation_missing(1,3)[OF None, of reason] show ?thesis by (cases sess) auto
next
  case (Some ord)
  from release_reservation_found(1,3)[OF Some, of reason] show ?thesis by (cases sess) auto
qed

lemma add_inventory_effects:
  "effects (snd (add_inventory name qty admin cmt sess db)) =
     effects (session_or_new sess db) @
     (if sess = None
      then (if fst (fst (add_inventory name qty admin cmt sess db)) then [Commit, Close] else [Close])
      else [])"
proof (cases "goods_tbl (work (session_or_new sess db)) name")
  case None
  from add_inventory_missing(1,3)[OF None, of qty admin cmt] show ?thesis by (cases sess) auto
next
  case (Some g)
  from add_inventory_found(1,3)[OF Some, of qty admin cmt] show ?thesis by (cases sess) auto
qed

lemma supplied_session_base:
  "base (snd (reserve_inventory to_int now oid its pm (Some s) db)) = base s"
  "base (snd (release_reservation oid reason (Some s) db)) = base s"
  "base (snd (deduct_inventory oid admin (Some s) db)) = base s"
  "base (snd (add_inventory name qty admin cmt (Some s) db)) = base s"
  by (simp_all add: reserve_inventory_def release_reservation_def deduct_inventory_def
        add_inventory_def finally_close_def Let_def split: option.splits sum.splits)

text \<open>
  Claim C9, as amended. On a session supplied by the caller, \<open>release_reservation\<close> and
  \<open>add_inventory\<close> make no call on the session, and \<open>reserve_inventory\<close> and
  \<open>deduct_inventory\<close> make none when they succeed, when the order is missing or when the
  deadline of a reservation cannot be computed; when they fail on an item (missing item,
  insufficient stock, stock below zero) they call \<open>rollback\<close> on the caller's session,
  once. None of the four commits or closes a supplied
  session or changes the committed database through it. With no session supplied each
  operation commits and closes its own session on success, and closes it (after the
  \<open>rollback\<close> of an item failure) otherwise.
\<close>

theorem engine_session_calls:
  "effects (snd (release_reservation order_id reason (Some s) db)) = effects s \<and>
   effects (snd (add_inventory name qty admin cmt (Some s) db)) = effects s \<and>
   effects (snd (reserve_inventory to_int now order_id its pm (Some s) db)) =
     effects s @
     (if fst (fst (reserve_inventory to_int now order_id its pm (Some s) db)) then []
      else if snd (fst (reserve_inventory to_int now order_id its pm (Some s) db)) = Order_not_found
      then []
      else if snd (fst (reserve_inventory to_int now order_id its pm (Some s) db)) = Error_reserving
      then [] else [Rollback]) \<and>
   effects (snd (deduct_inventory order_id admin (Some s) db)) =
     effects s @
     (if fst (fst (deduct_inventory order_id admin (Some s) db)) then []
      else if snd (fst (deduct_inventory order_id admin (Some s) db)) = Order_not_found
      then [] else [Rollback]) \<and>
   base (snd (release_reservation order_id reason (Some s) db)) = base s \<and>
   base (snd (add_inventory name qty admin cmt (Some s) db)) = base s \<and>
   base (snd (reserve_inventory to_int now order_id its pm (Some s) db)) = base s \<and>
   base (snd (deduct_inventory order_id admin (Some s) db)) = base s \<and>
   effects (snd (release_reservation order_id reason None db)) =
     (if fst (fst (release_reservation order_id reason None db)) then [Commit, Close] else [Close]) \<and>
   effects (snd (add_inventory name qty admin cmt None db)) =
     (if fst (fst (add_inventory name qty admin cmt None db)) then [Commit, Close] else [Close]) \<and>
   effects (snd (reserve_inventory to_int now order_id its pm None db)) =
     (if fst (fst (reserve_inventory to_int now order_id its pm None db)) then [Commit, Close]
      else if snd (fst (reserve_inventory to_int now order_id its pm None db)) = Order_not_found
      then [Close] else [Rollback, Close]) \<and>
   effects (snd (deduct_inventory order_id admin None db)) =
     (if fst (fst (deduct_inventory order_id admin None db)) then [Commit, Close]
      else if snd (fst (deduct_inventory order_id admin None db)) = Order_not_found
      then [Close] else [Rollback, Close])"
  using release_reservation_effects[of order_id reason "Some s" db]
    release_reservation_effects[of order_id reason None db]
    add_inventory_effects[of name qty admin cmt "Some s" db]
    add_inventory_effects[of name qty admin cmt None db]
    reserve_inventory_effects[of to_int now order_id its pm "Some s" db]
    reserve_inventory_effects[of to_int now order_id its pm None db]
    deduct_inventory_effects[of order_id admin "Some s" db]
    deduct_inventory_effects[of order_id admin None db]
    supplied_session_base
  by simp

text \<open>
  Claim C9 as stated fails: a caller has added an order to its session and not yet
  committed; \<open>reserve_inventory\<close> on that session finds too little stock and rolls the
  caller's session back, so the caller's pending order is gone.
\<close>

theorem engine_session_calls_counterexample:
  "effects (snd (reserve_inventory known_ints 1000 1 [line ''Gadget'' 5] (Some ''cash'')
       (Some \<lparr>base = sample_db [(''Gadget'', stocked 4 1)] [],
              work = sample_db [(''Gadget'', stocked 4 1)]
                       [(1, sample_order ''pending'' ''cash'' None [line ''Gadget'' 5])],
              effects = []\<rparr>)
       (sample_db [(''Gadget'', stocked 4 1)] []))) = [Rollback] \<and>
   order_tbl (work (snd (reserve_inventory known_ints 1000 1 [line ''Gadget'' 5] (Some ''cash'')
       (Some \<lparr>base = sample_db [(''Gadget'', stocked 4 1)] [],
              work = sample_db [(''Gadget'', stocked 4 1)]
                       [(1, sample_order ''pending'' ''cash'' None [line ''Gadget'' 5])],
              effects = []\<rparr>)
       (sample_db [(''Gadget'', stocked 4 1)] [])))) = []"
  by (simp add: sample_defs engine_defs rollback_def)


subsection \<open>The stock invariant\<close>

lemma non_negative_modify_order:
  "non_negative (modify_order i f db) = non_negative db"
  by (simp add: non_negative_def)

lemma non_negative_step:
  "non_negative db \<Longrightarrow> 0 \<le> stock_quantity g \<Longrightarrow> 0 \<le> reserved_quantity g \<Longrightarrow>
     non_negative (log_inventory_change n c q oid a cm (set_goods name g db))"
  by (simp add: non_negative_def)

lemma release_items_non_negative:
  "non_negative db \<Longrightarrow> non_negative (release_items oid reason ref its db)"
proof (induction its arbitrary: db)
  case Nil
  then show ?case by simp
next
  case (Cons a its)
  show ?case
  proof (cases "goods_tbl db (item_name a)")
    case None
    with Cons show ?thesis by simp
  next
    case (Some g)
    have "0 \<le> stock_quantity g" using Cons.prems Some by (simp add: non_negative_def)
    then have "non_negative (log_inventory_change (item_name a) ''release'' (- quantity a)
        (Some oid) None (Released reason ref)
        (set_goods (item_name a)
           (g\<lparr>reserved_quantity := (if reserved_quantity g - quantity a < 0 then 0
                                    else reserved_quantity g - quantity a)\<rparr>) db))"
      using Cons.prems by (intro non_negative_step) simp_all
    from Cons.IH[OF this] Some show ?thesis by (simp add: Let_def)
  qed
qed

lemma deduct_items_non_negative:
  "deduct_items oid admin ref its db = Inr db' \<Longrightarrow> non_negative db \<Longrightarrow> non_negative db'"
proof (induction its arbitrary: db)
  case Nil
  then show ?case by simp
next
  case (Cons a its)
  from Cons.prems(1) obtain g where g: "goods_tbl db (item_name a) = Some g"
    and ok: "\<not> stock_quantity g - quantity a < 0"
    and rest: "deduct_items oid admin ref its
        (log_inventory_change (item_name a) ''deduct'' (- quantity a) (Some oid) admin
           (Order_confirmed ref)
           (set_goods (item_name a)
              (g\<lparr>stock_quantity := stock_quantity g - quantity a,
                 reserved_quantity := (if reserved_quantity g - quantity a < 0 then 0
                                       else reserved_quantity g - quantity a)\<rparr>) db)) = Inr db'"
    by (auto simp: Let_def split: option.splits if_splits)
  have "non_negative (log_inventory_change (item_name a) ''deduct'' (- quantity a) (Some oid) admin
           (Order_confirmed ref)
           (set_goods (item_name a)
              (g\<lparr>stock_quantity := stock_quantity g - quantity a,
                 reserved_quantity := (if reserved_quantity g - quantity a < 0 then 0
                                       else reserved_quantity g - quantity a)\<rparr>) db))"
    using Cons.prems(2) ok by (intro non_negative_step) simp_all
  from Cons.IH[OF rest this] show ?case .
qed

lemma reserve_items_non_negative:
  "reserve_items oid ref pm its db = Inr db' \<Longrightarrow> non_negative db \<Longrightarrow>
     \<forall>it\<in>set its. 0 \<le> quantity it \<Longrightarrow> non_negative db'"
proof (induction its arbitrary: db)
  case Nil
  then show ?case by simp
next
  case (Cons a its)
  from Cons.prems(1) obtain g where g: "goods_tbl db (item_name a) = Some g"
    and rest: "reserve_items oid ref pm its
        (log_inventory_change (item_name a) ''reserve'' (quantity a) (Some oid) None
           (Reserved_for ref pm)
           (set_goods (item_name a)
              (g\<lparr>reserved_quantity := reserved_quantity g + quantity a\<rparr>) db)) = Inr db'"
    by (auto simp: Let_def split: option.splits if_splits)
  have "0 \<le> stock_quantity g" "0 \<le> reserved_quantity g"
    using Cons.prems(2) g by (simp_all add: non_negative_def)
  then have "non_negative (log_inventory_change (item_name a) ''reserve'' (quantity a) (Some oid) None
           (Reserved_for ref pm)
           (set_goods (item_name a)
              (g\<lparr>reserved_quantity := reserved_quantity g + quantity a\<rparr>) db))"
    using Cons.prems(2,3) by (intro non_negative_step) simp_all
  from Cons.IH[OF rest this] Cons.prems(3) show ?case by simp
qed

lemma release_reservation_non_negative:
  assumes "non_negative (base (session_or_new sess db))"
    and "non_negative (work (session_or_new sess db))"
  shows "non_negative (work (snd (release_reservation oid reason sess db))) \<and>
         non_negative (base (snd (release_reservation oid reason sess db)))"
proof (cases "get_order (work (session_or_new sess db)) oid")
  case None
  from release_reservation_missing(2,4)[OF None, of reason] assms
  show ?thesis by (cases sess) auto
next
  case (Some ord)
  have "non_negative (modify_order oid (\<lambda>row. row\<lparr>reserved_until := None\<rparr>)
             (release_items oid reason (order_ref_of ord oid) (items ord)
                (work (session_or_new sess db))))"
    using release_items_non_negative[OF assms(2)] by (simp add: non_negative_modify_order)
  with release_reservation_found(2,4)[OF Some, of reason] assms(1)
  show ?thesis by (cases sess) auto
qed

lemma deduct_inventory_non_negative:
  assumes "non_negative (base (session_or_new sess db))"
    and "non_negative (work (session_or_new sess db))"
  shows "non_negative (work (snd (deduct_inventory oid admin sess db))) \<and>
         non_negative (base (snd (deduct_inventory oid admin sess db)))"
proof (cases "get_order (work (session_or_new sess db)) oid")
  case None
  from deduct_inventory_missing(2,4)[OF None, of admin] assms
  show ?thesis by (cases sess) auto
next
  case (Some ord)
  show ?thesis
  proof (cases "deduct_items oid admin (order_ref_of ord oid) (items ord)
           (work (session_or_new sess db))")
    case (Inl msg)
    from deduct_inventory_failure(2,3)[OF Some Inl] assms(1) show ?thesis by simp
  next
    case (Inr db')
    have "non_negative (modify_order oid (\<lambda>row. row\<lparr>reserved_until := None\<rparr>) db')"
      using deduct_items_non_negative[OF Inr assms(2)] by (simp add: non_negative_modify_order)
    with deduct_inventory_success(2,4)[OF Some Inr] assms(1)
    show ?thesis by (cases sess) auto
  qed
qed

lemma reserve_inventory_non_negative:
  assumes "non_negative (base (session_or_new sess db))"
    and "non_negative (work (session_or_new sess db))"
    and "\<forall>it\<in>set its. 0 \<le> quantity it"
  shows "non_negative (work (snd (reserve_inventory to_int now oid its pm sess db))) \<and>
         non_negative (base (snd (reserve_inventory to_int now oid its pm sess db)))"
proof (cases "get_order (work (session_or_new sess db)) oid")
  case None
  from reserve_inventory_missing(2,4)[OF None, of to_int now its pm] assms(1,2)
  show ?thesis by (cases sess) auto
next
  case (Some ord)
  show ?thesis
  proof (cases "reserve_items oid (order_ref_of ord oid)
           (case pm of None \<Rightarrow> payment_method ord | Some p \<Rightarrow> p) its
           (work (session_or_new sess db))")
    case (Inl msg)
    from reserve_inventory_failure(2,3)[OF Some Inl, of to_int now] assms(1)
    show ?thesis by simp
  next
    case (Inr db')
    have nn: "non_negative db'" using reserve_items_non_negative[OF Inr assms(2,3)] .
    show ?thesis
    proof (cases "plus_hours now (get_bot_setting to_int (base (session_or_new sess db))
                           ''cash_order_timeout_hours'' 24)")
      case None
      from reserve_inventory_overflow(2,3)[OF Some Inr None] nn assms(1)
      show ?thesis by (cases sess) auto
    next
      case (Some deadline)
      have "non_negative (modify_order oid (\<lambda>row. row\<lparr>reserved_until := Some deadline,
                 order_status := ''reserved''\<rparr>) db')"
        using nn by (simp add: non_negative_modify_order)
      with reserve_inventory_success(2,4)[OF
          \<open>get_order (work (session_or_new sess db)) oid = Some ord\<close> Inr Some] assms(1)
      show ?thesis by (cases sess) auto
    qed
  qed
qed

lemma add_inventory_non_negative:
  assumes "non_negative (base (session_or_new sess db))"
    and "non_negative (work (session_or_new sess db))"
    and "0 \<le> qty"
  shows "non_negative (work (snd (add_inventory name qty admin cmt sess db))) \<and>
         non_negative (base (snd (add_inventory name qty admin cmt sess db)))"
proof (cases "goods_tbl (work (session_or_new sess db)) name")
  case None
  from add_inventory_missing(2,4)[OF None, of qty admin cmt] assms(1,2)
  show ?thesis by (cases sess) auto
next
  case (Some g)
  have "0 \<le> stock_quantity g" "0 \<le> reserved_quantity g"
    using assms(2) Some by (simp_all add: non_negative_def)
  with assms(2,3) have "non_negative (work (snd (add_inventory name qty admin cmt sess db)))"
    using add_inventory_found(2)[OF Some, of qty admin cmt]
    by (auto simp: non_negative_def)
  with add_inventory_found(4)[OF Some, of qty admin cmt] assms(1)
  show ?thesis by (cases sess) auto
qed

text \<open>
  Claim C6, as amended. Let no item have a negative \<open>stock_quantity\<close> or
  \<open>reserved_quantity\<close>, neither in the committed database nor in the session's working
  copy. Then the same holds after \<open>release_reservation\<close> and after \<open>deduct_inventory\<close>,
  whatever the order (a reservation released twice is floored at zero), after
  \<open>reserve_inventory\<close> when no requested quantity is negative, and after \<open>add_inventory\<close>
  when the added quantity is not negative.
\<close>

theorem engine_keeps_non_negative:
  assumes "non_negative (base (session_or_new sess db))"
    and "non_negative (work (session_or_new sess db))"
  shows "non_negative (work (snd (release_reservation order_id reason sess db))) \<and>
         non_negative (base (snd (release_reservation order_id reason sess db))) \<and>
         non_negative (work (snd (deduct_inventory order_id admin sess db))) \<and>
         non_negative (base (snd (deduct_inventory order_id admin sess db))) \<and>
         ((\<forall>it\<in>set its. 0 \<le> quantity it) \<longrightarrow>
            non_negative (work (snd (reserve_inventory to_int now order_id its pm sess db))) \<and>
            non_negative (base (snd (reserve_inventory to_int now order_id its pm sess db)))) \<and>
         (0 \<le> qty \<longrightarrow>
            non_negative (work (snd (add_inventory name qty admin cmt sess db))) \<and>
            non_negative (base (snd (add_inventory name qty admin cmt sess db))))"
  using release_reservation_non_negative[OF assms] deduct_inventory_non_negative[OF assms]
    reserve_inventory_non_negative[OF assms] add_inventory_non_negative[OF assms]
  by blast


text \<open>
  Claim C6 at a concrete input: ten widgets in stock, two reserved, and an order for three.
\<close>

theorem engine_keeps_non_negative_witness:
  "non_negative (work (snd (release_reservation 1 ''Order cancelled'' None
      (sample_db [(''Widget'', stocked 10 2)]
         [(1, sample_order ''reserved'' ''cash'' (Some 5000) [line ''Widget'' 3])])))) \<and>
   non_negative (work (snd (deduct_inventory 1 None None
      (sample_db [(''Widget'', stocked 10 2)]
         [(1, sample_order ''reserved'' ''cash'' (Some 5000) [line ''Widget'' 3])])))) \<and>
   non_negative (work (snd (reserve_inventory known_ints 1000 1 [line ''Widget'' 3] None None
      (sample_db [(''Widget'', stocked 10 2)]
         [(1, sample_order ''reserved'' ''cash'' (Some 5000) [line ''Widget'' 3])])))) \<and>
   non_negative (work (snd (add_inventory ''Widget'' 5 None None None
      (sample_db [(''Widget'', stocked 10 2)]
         [(1, sample_order ''reserved'' ''cash'' (Some 5000) [line ''Widget'' 3])]))))"
proof -
  let ?db = "sample_db [(''Widget'', stocked 10 2)]
         [(1, sample_order ''reserved'' ''cash'' (Some 5000) [line ''Widget'' 3])]"
  have nn: "non_negative ?db"
    by (simp add: non_negative_def sample_defs)
  have h1: "non_negative (base (session_or_new None ?db))" using nn by simp
  have h2: "non_negative (work (session_or_new None ?db))" using nn by simp
  have q1: "\<forall>it\<in>set [line ''Widget'' 3]. 0 \<le> quantity it" by (simp add: line_def)
  have q2: "(0::int) \<le> 5" by simp
  from engine_keeps_non_negative [OF h1 h2, of 1 "''Order cancelled''" None
      "[line ''Widget'' 3]" known_ints 1000 None 5 "''Widget''" None] q1 q2
  show ?thesis by blast
qed

text \<open>
  Claim C6 as stated fails: neither \<open>add_inventory\<close> nor \<open>reserve_inventory\<close> checks the sign
  of the quantity. Adding -5 to a stock of 3 succeeds and commits a stock of -2; reserving
  -3 succeeds and commits a reserved count of -3.
\<close>

theorem engine_keeps_non_negative_counterexample:
  "fst (add_inventory ''Widget'' (- 5) None None None
         (sample_db [(''Widget'', stocked 3 0)] [])) = (True, Added (- 5) ''Widget'') \<and>
   goods_tbl (base (snd (add_inventory ''Widget'' (- 5) None None None
         (sample_db [(''Widget'', stocked 3 0)] [])))) ''Widget'' = Some (stocked (- 2) 0) \<and>
   fst (reserve_inventory known_ints 1000 1 [line ''Widget'' (- 3)] None None
         (sample_db [(''Widget'', stocked 3 0)]
            [(1, sample_order ''reserved'' ''cash'' (Some 5000) [line ''Widget'' 2])]))
     = (True, Reserved_successfully) \<and>
   goods_tbl (base (snd (reserve_inventory known_ints 1000 1 [line ''Widget'' (- 3)] None None
         (sample_db [(''Widget'', stocked 3 0)]
            [(1, sample_order ''reserved'' ''cash'' (Some 5000) [line ''Widget'' 2])]))))
      ''Widget'' = Some (stocked 3 (- 3))"
  by (simp add: sample_defs engine_defs new_session_def commit_def close_def)


subsection \<open>Reserve followed by release\<close>

lemma get_order_release_items:
  "get_order (release_items oid reason ref its db) = get_order db"
  using release_items_tables[of oid reason ref its db] by (simp add: get_order_def fun_eq_iff)

text \<open>
  Claim C7, as amended. Let \<open>reserve_inventory\<close> succeed on a request that is exactly the
  order's own line items, names each item once, and touches no item whose
  \<open>reserved_quantity\<close> was negative. Then \<open>release_reservation\<close> for the same order, run on
  the database the reservation left (in the same session or in a later one), succeeds,
  leaves every item of the catalogue with the stock and reserved counts it had before the
  reservation, and clears the order's deadline.
\<close>

theorem reserve_release_round_trip:
  assumes "get_order (work (session_or_new sess db)) order_id = Some ord"
    and "items ord = its"
    and "distinct (map item_name its)"
    and "\<forall>it\<in>set its. \<forall>g. goods_tbl (work (session_or_new sess db)) (item_name it) = Some g
            \<longrightarrow> 0 \<le> reserved_quantity g"
    and "reserve_inventory to_int now order_id its pm sess db = ((True, msg), s1)"
    and "work (session_or_new sess2 db2) = work s1"
  shows "fst (release_reservation order_id reason sess2 db2) = (True, Released_successfully) \<and>
         goods_tbl (work (snd (release_reservation order_id reason sess2 db2))) =
           goods_tbl (work (session_or_new sess db)) \<and>
         deadline_of (snd (release_reservation order_id reason sess2 db2)) order_id = None"
proof -
  let ?s = "session_or_new sess db"
  from reserve_inventory_True[OF assms(5,1)] obtain db' deadline where
    r: "reserve_items order_id (order_ref_of ord order_id)
           (case pm of None \<Rightarrow> payment_method ord | Some p \<Rightarrow> p) its (work ?s) = Inr db'"
    and w1: "work s1 = modify_order order_id
               (\<lambda>row. row\<lparr>reserved_until := Some deadline, order_status := ''reserved''\<rparr>) db'"
    by blast
  let ?upd = "\<lambda>row. row\<lparr>reserved_until := Some deadline, order_status := ''reserved''\<rparr>"
  have go': "get_order db' order_id = Some ord"
    using reserve_items_tables[OF r] assms(1) by (simp add: get_order_def)
  have go1: "get_order (work (session_or_new sess2 db2)) order_id = Some (?upd ord)"
    using assms(6) w1 go' by simp
  have it1: "items (?upd ord) = its" using assms(2) by simp
  let ?rel = "release_items order_id reason (order_ref_of (?upd ord) order_id) its (work s1)"
  note f = release_reservation_found[OF go1, of reason]
  have w2: "work (snd (release_reservation order_id reason sess2 db2)) =
      modify_order order_id (\<lambda>row. row\<lparr>reserved_until := None\<rparr>) ?rel"
    using f(2) it1 assms(6) by simp
  have goods1: "goods_tbl (work s1) = goods_tbl db'" using w1 by simp
  have "goods_tbl ?rel n = goods_tbl (work ?s) n" for n
  proof (cases "n \<in> item_name ` set its")
    case False
    from release_items_other[OF False] reserve_items_other[OF r False] goods1
    show ?thesis by simp
  next
    case True
    then obtain it where it: "it \<in> set its" and n: "n = item_name it" by auto
    from reserve_items_touched[OF r assms(3) it] obtain g where
      g: "goods_tbl (work ?s) (item_name it) = Some g"
      and g': "goods_tbl db' (item_name it) =
                 Some (g\<lparr>reserved_quantity := reserved_quantity g + quantity it\<rparr>)"
      by blast
    have nn: "0 \<le> reserved_quantity g" using assms(4) it g by blast
    from release_items_touched[OF assms(3) it, of order_id reason
        "order_ref_of (?upd ord) order_id" "work s1"] g' goods1
    have "goods_tbl ?rel (item_name it) =
            Some (g\<lparr>reserved_quantity := max 0 (reserved_quantity g)\<rparr>)"
      by simp
    with nn g n show ?thesis by (simp add: max_def)
  qed
  then have goods2: "goods_tbl (work (snd (release_reservation order_id reason sess2 db2))) =
      goods_tbl (work ?s)"
    using w2 by (simp add: fun_eq_iff)
  have "get_order ?rel order_id = Some (?upd ord)"
    using go1 assms(6) by (simp add: get_order_release_items)
  then have "deadline_of (snd (release_reservation order_id reason sess2 db2)) order_id = None"
    using w2 by (simp add: deadline_of_def)
  with f(1) goods2 show ?thesis by simp
qed

text \<open>
  Claim C7 at a concrete input: three widgets reserved and released, each call on a session
  of its own.
\<close>

theorem reserve_release_round_trip_witness:
  "goods_tbl (work (snd (release_reservation 1 ''Order cancelled'' None
      (base (snd (reserve_inventory known_ints 1000 1 [line ''Widget'' 3] None None
         (sample_db [(''Widget'', stocked 10 2)]
            [(1, sample_order ''pending'' ''cash'' None [line ''Widget'' 3])])))))))
     = goods_tbl (sample_db [(''Widget'', stocked 10 2)]
            [(1, sample_order ''pending'' ''cash'' None [line ''Widget'' 3])]) \<and>
   deadline_of (snd (release_reservation 1 ''Order cancelled'' None
      (base (snd (reserve_inventory known_ints 1000 1 [line ''Widget'' 3] None None
         (sample_db [(''Widget'', stocked 10 2)]
            [(1, sample_order ''pending'' ''cash'' None [line ''Widget'' 3])])))))) 1 = None"
proof -
  let ?its = "[line ''Widget'' 3]"
  let ?ord = "sample_order ''pending'' ''cash'' None ?its"
  let ?db = "sample_db [(''Widget'', stocked 10 2)] [(1, ?ord)]"
  let ?res = "reserve_inventory known_ints 1000 1 ?its None None ?db"
  have h1: "get_order (work (session_or_new None ?db)) 1 = Some ?ord"
    by (simp add: get_order_def sample_db_def)
  have h2: "items ?ord = ?its" by (simp add: sample_order_def)
  have h3: "distinct (map item_name ?its)" by simp
  have h4: "\<forall>it\<in>set ?its. \<forall>g. goods_tbl (work (session_or_new None ?db)) (item_name it) = Some g
            \<longrightarrow> 0 \<le> reserved_quantity g"
    by (simp add: sample_defs)
  have h5: "?res = ((True, Reserved_successfully), snd ?res)"
    by (simp add: sample_defs engine_defs new_session_def commit_def close_def)
  have h6: "work (session_or_new None (base (snd ?res))) = work (snd ?res)"
    by (simp add: reserve_inventory_def finally_close_def Let_def
          split: option.splits sum.splits)
  from reserve_release_round_trip [OF h1 h2 h3 h4 h5 h6, of "''Order cancelled''"]
  show ?thesis by simp
qed

text \<open>
  Claim C7 as stated fails: \<open>reserve_inventory\<close> reserves the items it is passed,
  \<open>release_reservation\<close> releases the order's line items. The order holds three widgets,
  two of them reserved; one more is reserved through a request for that one widget
  (as \<open>add_item_to_order\<close> of \<open>bot_cli.py\<close> does), and the release that follows takes the
  reserved count from 3 to 0, not back to 2.
\<close>

theorem reserve_release_round_trip_counterexample:
  "fst (reserve_inventory known_ints 1000 1 [line ''Widget'' 1] None None
         (sample_db [(''Widget'', stocked 10 2)]
            [(1, sample_order ''reserved'' ''cash'' (Some 5000) [line ''Widget'' 3])]))
     = (True, Reserved_successfully) \<and>
   goods_tbl (sample_db [(''Widget'', stocked 10 2)]
            [(1, sample_order ''reserved'' ''cash'' (Some 5000) [line ''Widget'' 3])]) ''Widget''
     = Some (stocked 10 2) \<and>
   goods_tbl (base (snd (reserve_inventory known_ints 1000 1 [line ''Widget'' 1] None None
         (sample_db [(''Widget'', stocked 10 2)]
            [(1, sample_order ''reserved'' ''cash'' (Some 5000) [line ''Widget'' 3])]))))
      ''Widget'' = Some (stocked 10 3) \<and>
   goods_tbl (base (snd (release_reservation 1 ''Order cancelled'' None
      (base (snd (reserve_inventory known_ints 1000 1 [line ''Widget'' 1] None None
         (sample_db [(''Widget'', stocked 10 2)]
            [(1, sample_order ''reserved'' ''cash'' (Some 5000) [line ''Widget'' 3])])))))))
      ''Widget'' = Some (stocked 10 0)"
  by (simp add: sample_defs engine_defs new_session_def commit_def close_def)


subsection \<open>Deduct: stock below zero aborts, reserved below zero is floored\<close>

lemma get_order_deduct_items:
  "deduct_items oid admin ref its db = Inr db' \<Longrightarrow> get_order db' = get_order db"
  using deduct_items_tables[of oid admin ref its db db'] by (simp add: get_order_def fun_eq_iff)

text \<open>
  Claim C4, as amended. Let the order exist and its lines name each item once. If some line
  asks for more than the item's \<open>stock_quantity\<close>, \<open>deduct_inventory\<close> fails with a
  message naming an offending line (a missing item, or \<open>Stock would go negative\<close>), the
  session is rolled back so that the working copy is the committed database again, and the
  only calls made are that \<open>rollback\<close> and the \<open>close\<close> of an own session: no log record
  is written. If every line's item exists with at least the line's quantity in stock, the
  deduction succeeds whatever the reserved counts are: each stock goes down by the line's
  quantity, each reserved count goes down by it and is floored at zero, and the deadline is
  cleared.
\<close>

theorem deduct_asymmetric:
  assumes "get_order (work (session_or_new sess db)) order_id = Some ord"
    and "distinct (map item_name (items ord))"
  shows "((\<exists>it\<in>set (items ord). \<exists>g.
             goods_tbl (work (session_or_new sess db)) (item_name it) = Some g \<and>
             stock_quantity g < quantity it) \<longrightarrow>
          (\<exists>bad\<in>set (items ord). \<exists>msg s'.
             deduct_inventory order_id admin sess db = ((False, msg), s') \<and>
             ((goods_tbl (work (session_or_new sess db)) (item_name bad) = None \<and>
                 msg = Item_not_found (item_name bad)) \<or>
              (\<exists>g'. goods_tbl (work (session_or_new sess db)) (item_name bad) = Some g' \<and>
                 stock_quantity g' < quantity bad \<and> msg = Stock_negative (item_name bad))) \<and>
             work s' = base (session_or_new sess db) \<and>
             base s' = base (session_or_new sess db) \<and>
             effects s' = effects (session_or_new sess db) @
                            Rollback # (if sess = None then [Close] else []))) \<and>
         ((\<forall>it\<in>set (items ord). \<exists>g.
             goods_tbl (work (session_or_new sess db)) (item_name it) = Some g \<and>
             quantity it \<le> stock_quantity g) \<longrightarrow>
          (\<exists>s'. deduct_inventory order_id admin sess db = ((True, Deducted_successfully), s') \<and>
             (\<forall>it\<in>set (items ord). \<exists>g.
                goods_tbl (work (session_or_new sess db)) (item_name it) = Some g \<and>
                goods_tbl (work s') (item_name it) =
                  Some (g\<lparr>stock_quantity := stock_quantity g - quantity it,
                         reserved_quantity := max 0 (reserved_quantity g - quantity it)\<rparr>)) \<and>
             deadline_of s' order_id = None))"
proof (intro conjI impI)
  let ?s = "session_or_new sess db"
  let ?res = "deduct_inventory order_id admin sess db"
  let ?loop = "deduct_items order_id admin (order_ref_of ord order_id) (items ord) (work ?s)"
  assume "\<exists>it\<in>set (items ord). \<exists>g. goods_tbl (work ?s) (item_name it) = Some g \<and>
             stock_quantity g < quantity it"
  then obtain it g where it: "it \<in> set (items ord)"
    and g: "goods_tbl (work ?s) (item_name it) = Some g"
    and short: "stock_quantity g < quantity it" by blast
  obtain msg where r: "?loop = Inl msg"
  proof (cases ?loop)
    case (Inl m)
    then show ?thesis using that by blast
  next
    case (Inr db')
    from deduct_items_touched[OF Inr assms(2) it] g short show ?thesis by auto
  qed
  note f = deduct_inventory_failure[OF assms(1) r]
  from deduct_items_fails[OF r assms(2)] obtain bad where bad: "bad \<in> set (items ord)"
    and shape: "(goods_tbl (work ?s) (item_name bad) = None \<and> msg = Item_not_found (item_name bad)) \<or>
      (\<exists>g'. goods_tbl (work ?s) (item_name bad) = Some g' \<and> stock_quantity g' < quantity bad \<and>
           msg = Stock_negative (item_name bad))"
    by blast
  have "?res = ((False, msg), snd ?res)" using f(1) by (metis prod.collapse)
  with bad shape f(2,3,4)
  show "\<exists>bad\<in>set (items ord). \<exists>msg s'.
             ?res = ((False, msg), s') \<and>
             ((goods_tbl (work ?s) (item_name bad) = None \<and> msg = Item_not_found (item_name bad)) \<or>
              (\<exists>g'. goods_tbl (work ?s) (item_name bad) = Some g' \<and>
                 stock_quantity g' < quantity bad \<and> msg = Stock_negative (item_name bad))) \<and>
             work s' = base ?s \<and> base s' = base ?s \<and>
             effects s' = effects ?s @ Rollback # (if sess = None then [Close] else [])"
    by blast
next
  let ?s = "session_or_new sess db"
  let ?res = "deduct_inventory order_id admin sess db"
  assume enough: "\<forall>it\<in>set (items ord). \<exists>g. goods_tbl (work ?s) (item_name it) = Some g \<and>
             quantity it \<le> stock_quantity g"
  from deduct_items_succeeds[OF assms(2) enough] obtain db' where
    r: "deduct_items order_id admin (order_ref_of ord order_id) (items ord) (work ?s) = Inr db'"
    by blast
  note ok = deduct_inventory_success[OF assms(1) r]
  have "?res = ((True, Deducted_successfully), snd ?res)" using ok(1) by (metis prod.collapse)
  moreover have "\<forall>it\<in>set (items ord). \<exists>g.
                goods_tbl (work ?s) (item_name it) = Some g \<and>
                goods_tbl (work (snd ?res)) (item_name it) =
                  Some (g\<lparr>stock_quantity := stock_quantity g - quantity it,
                         reserved_quantity := max 0 (reserved_quantity g - quantity it)\<rparr>)"
    using deduct_items_touched[OF r assms(2)] ok(2) by auto
  moreover have "deadline_of (snd ?res) order_id = None"
    using ok(2) get_order_deduct_items[OF r] assms(1) by (simp add: deadline_of_def)
  ultimately show "\<exists>s'. ?res = ((True, Deducted_successfully), s') \<and>
             (\<forall>it\<in>set (items ord). \<exists>g.
                goods_tbl (work ?s) (item_name it) = Some g \<and>
                goods_tbl (work s') (item_name it) =
                  Some (g\<lparr>stock_quantity := stock_quantity g - quantity it,
                         reserved_quantity := max 0 (reserved_quantity g - quantity it)\<rparr>)) \<and>
             deadline_of s' order_id = None"
    by blast
qed

text \<open>
  Claim C4 at two concrete inputs: a line of 100 widgets against a stock of 5 fails and
  leaves the database as it was; a line of 3 against a stock of 10 with only 1 reserved
  succeeds and leaves a stock of 7 and a reserved count of 0.
\<close>

theorem deduct_asymmetric_witness:
  "(\<exists>s'. deduct_inventory 1 (Some 9) None
       (sample_db [(''Widget'', stocked 5 100)]
          [(1, sample_order ''confirmed'' ''cash'' (Some 5000) [line ''Widget'' 100])])
      = ((False, Stock_negative ''Widget''), s') \<and>
      work s' = sample_db [(''Widget'', stocked 5 100)]
          [(1, sample_order ''confirmed'' ''cash'' (Some 5000) [line ''Widget'' 100])]) \<and>
   (\<exists>s'. deduct_inventory 1 (Some 9) None
       (sample_db [(''Widget'', stocked 10 1)]
          [(1, sample_order ''confirmed'' ''cash'' (Some 5000) [line ''Widget'' 3])])
      = ((True, Deducted_successfully), s') \<and>
      goods_tbl (work s') ''Widget'' = Some (stocked 7 0))"
proof -
  let ?o1 = "sample_order ''confirmed'' ''cash'' (Some 5000) [line ''Widget'' 100]"
  let ?d1 = "sample_db [(''Widget'', stocked 5 100)] [(1, ?o1)]"
  let ?o2 = "sample_order ''confirmed'' ''cash'' (Some 5000) [line ''Widget'' 3]"
  let ?d2 = "sample_db [(''Widget'', stocked 10 1)] [(1, ?o2)]"
  have a1: "get_order (work (session_or_new None ?d1)) 1 = Some ?o1"
    by (simp add: get_order_def sample_db_def)
  have a2: "distinct (map item_name (items ?o1))" by (simp add: sample_order_def)
  have a3: "\<exists>it\<in>set (items ?o1). \<exists>g.
             goods_tbl (work (session_or_new None ?d1)) (item_name it) = Some g \<and>
             stock_quantity g < quantity it"
    by (simp add: sample_defs)
  from deduct_asymmetric [OF a1 a2, of "Some 9"] a3
  obtain bad msg s' where
    r: "deduct_inventory 1 (Some 9) None ?d1 = ((False, msg), s')"
    and bad: "bad \<in> set (items ?o1)"
    and shape: "(goods_tbl (work (session_or_new None ?d1)) (item_name bad) = None \<and>
                 msg = Item_not_found (item_name bad)) \<or>
              (\<exists>g'. goods_tbl (work (session_or_new None ?d1)) (item_name bad) = Some g' \<and>
                 stock_quantity g' < quantity bad \<and> msg = Stock_negative (item_name bad))"
    and w: "work s' = base (session_or_new None ?d1)"
    by blast
  from bad shape have "msg = Stock_negative ''Widget''" by (auto simp: sample_defs)
  with r w have first: "\<exists>s'. deduct_inventory 1 (Some 9) None ?d1
      = ((False, Stock_negative ''Widget''), s') \<and> work s' = ?d1" by simp
  have b1: "get_order (work (session_or_new None ?d2)) 1 = Some ?o2"
    by (simp add: get_order_def sample_db_def)
  have b2: "distinct (map item_name (items ?o2))" by (simp add: sample_order_def)
  have b3: "\<forall>it\<in>set (items ?o2). \<exists>g.
             goods_tbl (work (session_or_new None ?d2)) (item_name it) = Some g \<and>
             quantity it \<le> stock_quantity g"
    by (simp add: sample_defs)
  from deduct_asymmetric [OF b1 b2, of "Some 9"] b3
  obtain s2 where
    r2: "deduct_inventory 1 (Some 9) None ?d2 = ((True, Deducted_successfully), s2)"
    and g2: "\<forall>it\<in>set (items ?o2). \<exists>g.
                goods_tbl (work (session_or_new None ?d2)) (item_name it) = Some g \<and>
                goods_tbl (work s2) (item_name it) =
                  Some (g\<lparr>stock_quantity := stock_quantity g - quantity it,
                         reserved_quantity := max 0 (reserved_quantity g - quantity it)\<rparr>)"
    by blast
  from g2 have "goods_tbl (work s2) ''Widget'' = Some (stocked 7 0)"
    by (simp add: sample_defs)
  with r2 have "\<exists>s'. deduct_inventory 1 (Some 9) None ?d2
      = ((True, Deducted_successfully), s') \<and> goods_tbl (work s') ''Widget'' = Some (stocked 7 0)"
    by simp
  with first show ?thesis by blast
qed

text \<open>
  Claim C4 as stated fails in one point: the failed deduction is reported through the
  returned pair only. \<open>deduct_inventory\<close> never calls the logger, so no record of critical
  severity exists after the failure.
\<close>

theorem deduct_asymmetric_counterexample:
  "fst (deduct_inventory 1 (Some 9) None
       (sample_db [(''Widget'', stocked 5 100)]
          [(1, sample_order ''confirmed'' ''cash'' (Some 5000) [line ''Widget'' 100])]))
     = (False, Stock_negative ''Widget'') \<and>
   effects (snd (deduct_inventory 1 (Some 9) None
       (sample_db [(''Widget'', stocked 5 100)]
          [(1, sample_order ''confirmed'' ''cash'' (Some 5000) [line ''Widget'' 100])])))
     = [Rollback, Close] \<and>
   Logged Critical \<notin> set (effects (snd (deduct_inventory 1 (Some 9) None
       (sample_db [(''Widget'', stocked 5 100)]
          [(1, sample_order ''confirmed'' ''cash'' (Some 5000) [line ''Widget'' 100])]))))"
  by (simp add: sample_defs engine_defs new_session_def rollback_def close_def)


subsection \<open>Marking a Bitcoin address as used\<close>

lemma removed_address_not_in_file:
  "remove_bitcoin_address_from_file address file = Some lines \<Longrightarrow>
     address \<notin> set (file_addresses lines)"
  by (cases "file") (auto simp: remove_bitcoin_address_from_file_def file_addresses_def)

text \<open>
  Claim C3, as amended. For an address that is not in the table,
  \<open>mark_bitcoin_address_used\<close> returns \<open>False\<close> and changes neither the table nor the file.
  For an address that is in the table, used or not, it returns \<open>True\<close>, sets \<open>is_used\<close> and
  stores the user, the time and the order of this call, commits when the session is its
  own, and rewrites the file without the lines that hold the address, so that loading the
  file again cannot bring the address back.
\<close>

theorem mark_bitcoin_address_used_result:
  "(bitcoin_tbl (work (session_or_new sess db)) address = None \<longrightarrow>
      mark_bitcoin_address_used address user_id order_id now sess db file =
        (False, (if sess = None then close (session_or_new sess db) else session_or_new sess db),
         file)) \<and>
   (\<forall>btc_addr. bitcoin_tbl (work (session_or_new sess db)) address = Some btc_addr \<longrightarrow>
      (\<exists>s'. mark_bitcoin_address_used address user_id order_id now sess db file =
              (True, s', remove_bitcoin_address_from_file address file) \<and>
            bitcoin_tbl (work s') address =
              Some (btc_addr\<lparr>is_used := True, used_by := Some user_id,
                             used_at := Some now, btc_order_id := Some order_id\<rparr>) \<and>
            effects s' = effects (session_or_new sess db) @
                           (if sess = None then [Commit, Close] else []))) \<and>
   (\<forall>lines. remove_bitcoin_address_from_file address file = Some lines \<longrightarrow>
      address \<notin> set (file_addresses lines))"
  by (cases sess)
     (auto simp: mark_bitcoin_address_used_def Let_def removed_address_not_in_file)

text \<open>
  Claim C3 at a concrete input: a pool of one address and a file of a comment and two
  addresses.
\<close>

theorem mark_bitcoin_address_used_result_witness:
  "mark_bitcoin_address_used ''bc1qmissing'' 7 1 900 None
       ((sample_db [] [])\<lparr>bitcoin_tbl := [''bc1qaddr'' \<mapsto> unused_address]\<rparr>)
       (Some [''# pool'', ''bc1qaddr'', ''bc1qnext''])
     = (False,
        close (new_session ((sample_db [] [])\<lparr>bitcoin_tbl := [''bc1qaddr'' \<mapsto> unused_address]\<rparr>)),
        Some [''# pool'', ''bc1qaddr'', ''bc1qnext'']) \<and>
   fst (mark_bitcoin_address_used ''bc1qaddr'' 7 1 900 None
       ((sample_db [] [])\<lparr>bitcoin_tbl := [''bc1qaddr'' \<mapsto> unused_address]\<rparr>)
       (Some [''# pool'', ''bc1qaddr'', ''bc1qnext''])) = True \<and>
   ''bc1qaddr'' \<notin> set (file_addresses
       (the (remove_bitcoin_address_from_file ''bc1qaddr''
               (Some [''# pool'', ''bc1qaddr'', ''bc1qnext'']))))"
proof -
  let ?db = "(sample_db [] [])\<lparr>bitcoin_tbl := [''bc1qaddr'' \<mapsto> unused_address]\<rparr>"
  let ?file = "Some [''# pool'', ''bc1qaddr'', ''bc1qnext'']"
  have h1: "bitcoin_tbl (work (session_or_new None ?db)) ''bc1qmissing'' = None"
    by (simp add: sample_db_def)
  have h2: "bitcoin_tbl (work (session_or_new None ?db)) ''bc1qaddr'' = Some unused_address"
    by (simp add: sample_db_def)
  have h3: "remove_bitcoin_address_from_file ''bc1qaddr'' ?file
              = Some (the (remove_bitcoin_address_from_file ''bc1qaddr'' ?file))"
    by (simp add: remove_bitcoin_address_from_file_def)
  from mark_bitcoin_address_used_result [of None ?db "''bc1qmissing''" 7 1 900 ?file] h1
  have first: "mark_bitcoin_address_used ''bc1qmissing'' 7 1 900 None ?db ?file
     = (False, close (new_session ?db), ?file)" by simp
  from mark_bitcoin_address_used_result [of None ?db "''bc1qaddr''" 7 1 900 ?file] h2 h3
  have "fst (mark_bitcoin_address_used ''bc1qaddr'' 7 1 900 None ?db ?file) = True"
    and "''bc1qaddr'' \<notin> set (file_addresses
       (the (remove_bitcoin_address_from_file ''bc1qaddr'' ?file)))"
    by auto
  with first show ?thesis by blast
qed

text \<open>
  Claim C3 as stated fails: \<open>mark_bitcoin_address_used\<close> never reads \<open>is_used\<close>. A second
  call on the address just marked, for another user and order, returns \<open>True\<close> again and
  replaces the stored user, time and order.
\<close>

theorem mark_bitcoin_address_used_twice_counterexample:
  "fst (mark_bitcoin_address_used ''bc1qaddr'' 7 1 900 None
       ((sample_db [] [])\<lparr>bitcoin_tbl := [''bc1qaddr'' \<mapsto> unused_address]\<rparr>)
       (Some [''# pool'', ''bc1qaddr'', ''bc1qnext''])) = True \<and>
   mark_bitcoin_address_used ''bc1qaddr'' 8 2 950 None
       (base (fst (snd (mark_bitcoin_address_used ''bc1qaddr'' 7 1 900 None
          ((sample_db [] [])\<lparr>bitcoin_tbl := [''bc1qaddr'' \<mapsto> unused_address]\<rparr>)
          (Some [''# pool'', ''bc1qaddr'', ''bc1qnext''])))))
       (snd (snd (mark_bitcoin_address_used ''bc1qaddr'' 7 1 900 None
          ((sample_db [] [])\<lparr>bitcoin_tbl := [''bc1qaddr'' \<mapsto> unused_address]\<rparr>)
          (Some [''# pool'', ''bc1qaddr'', ''bc1qnext'']))))
     = (True,
        \<lparr>base = (sample_db [] [])\<lparr>bitcoin_tbl := [''bc1qaddr'' \<mapsto>
                   \<lparr>is_used = True, used_by = Some 8, used_at = Some 950,
                    btc_order_id = Some 2\<rparr>]\<rparr>,
         work = (sample_db [] [])\<lparr>bitcoin_tbl := [''bc1qaddr'' \<mapsto>
                   \<lparr>is_used = True, used_by = Some 8, used_at = Some 950,
                    btc_order_id = Some 2\<rparr>]\<rparr>,
         effects = [Commit, Close]\<rparr>,
        Some [''# pool'', ''bc1qnext''])"
  by (simp add: mark_bitcoin_address_used_def remove_bitcoin_address_from_file_def
        unused_address_def sample_db_def new_session_def commit_def close_def
        strip_def is_space_def starts_with_hash_def Let_def)


subsection \<open>The expiry sweep\<close>

lemma session_calls_simps [simp]:
  "session_calls (commit s) = session_calls s @ [Commit]"
  "session_calls (close s) = session_calls s @ [Close]"
  "session_calls (rollback s) = session_calls s @ [Rollback]"
  "session_calls (logger lvl s) = session_calls s"
  "session_calls (new_session db) = []"
  "session_calls (s\<lparr>work := w\<rparr>) = session_calls s"
  by (simp_all add: session_calls_def logger_def)

lemma logger_frame [simp]:
  "base (logger lvl s) = base s" "work (logger lvl s) = work s"
  by (simp_all add: logger_def)

lemma refund_bonus_frame:
  "base (refund_bonus send ord s) = base s"
  "session_calls (refund_bonus send ord s) = session_calls s"
  "order_tbl (work (refund_bonus send ord s)) = order_tbl (work s)"
  "goods_tbl (work (refund_bonus send ord s)) = goods_tbl (work s)"
  by (simp_all add: refund_bonus_def Let_def split: option.splits)

lemma get_order_refund_bonus [simp]:
  "get_order (work (refund_bonus send ord s)) = get_order (work s)"
  by (simp add: get_order_def fun_eq_iff refund_bonus_frame)

lemma expire_orders_Cons_found:
  assumes "get_order (work s) oid = Some cur"
  shows "expire_orders send fails ((oid, ord) # rest) count codes s =
           (if fails oid then (None, expire_step send oid ord s)
            else expire_orders send fails rest (count + 1) (codes @ [order_ref_of ord oid])
                   (expire_step send oid ord s))"
proof -
  have "get_order (work (session_or_new (Some s) (base s))) oid = Some cur"
    using assms by simp
  from release_reservation_found(1)[OF this, of "''Reservation timeout expired''"]
  obtain s1 where r: "release_reservation oid ''Reservation timeout expired'' (Some s) (base s) =
      ((True, Released_successfully), s1)"
    by (metis prod.collapse)
  then show ?thesis
    by (simp add: expire_step_def Let_def)
qed

lemma expire_step_frame:
  assumes "get_order (work s) oid = Some cur"
  shows "base (expire_step send oid ord s) = base s"
    and "session_calls (expire_step send oid ord s) = session_calls s"
    and "get_order (work (expire_step send oid ord s)) i =
           (if i = oid then Some (cur\<lparr>reserved_until := None, order_status := ''expired''\<rparr>)
            else get_order (work s) i)"
proof -
  have f: "get_order (work (session_or_new (Some s) (base s))) oid = Some cur"
    using assms by simp
  note r = release_reservation_found[OF f, of "''Reservation timeout expired''"]
  show "base (expire_step send oid ord s) = base s"
    using r(4) by (simp add: expire_step_def refund_bonus_frame)
  have "session_calls (snd (release_reservation oid ''Reservation timeout expired''
            (Some s) (base s))) = session_calls s"
    using r(3) by (simp add: session_calls_def)
  then show "session_calls (expire_step send oid ord s) = session_calls s"
    by (simp add: expire_step_def refund_bonus_frame)
  show "get_order (work (expire_step send oid ord s)) i =
           (if i = oid then Some (cur\<lparr>reserved_until := None, order_status := ''expired''\<rparr>)
            else get_order (work s) i)"
    using r(2) assms by (simp add: expire_step_def get_order_release_items)
qed

lemma expire_orders_no_fault:
  assumes "\<forall>(i, ord)\<in>set rows. \<not> fails i \<and> get_order (work s) i \<noteq> None"
  shows "\<exists>s'. expire_orders send fails rows count codes s =
           (Some (count + length rows, codes @ map (\<lambda>(i, ord). order_ref_of ord i) rows), s') \<and>
         base s' = base s \<and> session_calls s' = session_calls s \<and>
         (\<forall>i. expired_in (work s) i \<longrightarrow> expired_in (work s') i) \<and>
         (\<forall>(i, ord)\<in>set rows. expired_in (work s') i)"
  using assms
proof (induction rows arbitrary: count codes s)
  case Nil
  then show ?case by simp
next
  case (Cons row rows)
  obtain oid ord where row: "row = (oid, ord)" by (cases row)
  from Cons.prems row obtain cur where cur: "get_order (work s) oid = Some cur"
    and nf: "\<not> fails oid" by auto
  let ?s1 = "expire_step send oid ord s"
  note fr = expire_step_frame[OF cur, of send ord]
  have ex: "\<forall>(i, ord)\<in>set rows. \<not> fails i \<and> get_order (work ?s1) i \<noteq> None"
    using Cons.prems fr(3) by auto
  from Cons.IH[OF ex, of "count + 1" "codes @ [order_ref_of ord oid]"]
  obtain s' where
    e: "expire_orders send fails rows (count + 1) (codes @ [order_ref_of ord oid]) ?s1 =
          (Some (count + 1 + length rows,
                 (codes @ [order_ref_of ord oid]) @ map (\<lambda>(i, ord). order_ref_of ord i) rows), s')"
    and b: "base s' = base ?s1" and c: "session_calls s' = session_calls ?s1"
    and keep: "\<forall>i. expired_in (work ?s1) i \<longrightarrow> expired_in (work s') i"
    and fin: "\<forall>(i, ord)\<in>set rows. expired_in (work s') i"
    by blast
  have step_keep: "expired_in (work s) i \<Longrightarrow> expired_in (work ?s1) i" for i
    using fr(3)[of i] cur by (auto simp: expired_in_def split: option.splits)
  have step_done: "expired_in (work ?s1) oid"
    using fr(3)[of oid] by (simp add: expired_in_def)
  have "expire_orders send fails (row # rows) count codes s =
          (Some (count + length (row # rows),
                 codes @ map (\<lambda>(i, ord). order_ref_of ord i) (row # rows)), s')"
    using e nf row by (simp add: expire_orders_Cons_found[OF cur] del: expire_orders.simps)
  moreover have "base s' = base s" using b fr(1) by simp
  moreover have "session_calls s' = session_calls s" using c fr(2) by simp
  moreover have "\<forall>i. expired_in (work s) i \<longrightarrow> expired_in (work s') i"
    using keep step_keep by blast
  moreover have "\<forall>(i, ord)\<in>set (row # rows). expired_in (work s') i"
    using fin keep step_done row by auto
  ultimately show ?case by blast
qed

lemma expire_orders_fault:
  assumes "\<exists>(i, ord)\<in>set rows. fails i"
    and "\<forall>(i, ord)\<in>set rows. get_order (work s) i \<noteq> None"
  shows "\<exists>s'. expire_orders send fails rows count codes s = (None, s') \<and>
         base s' = base s \<and> session_calls s' = session_calls s"
  using assms
proof (induction rows arbitrary: count codes s)
  case Nil
  then show ?case by simp
next
  case (Cons row rows)
  obtain oid ord where row: "row = (oid, ord)" by (cases row)
  from Cons.prems(2) row obtain cur where cur: "get_order (work s) oid = Some cur" by auto
  let ?s1 = "expire_step send oid ord s"
  note fr = expire_step_frame[OF cur, of send ord]
  show ?case
  proof (cases "fails oid")
    case True
    then show ?thesis using row fr(1,2) by (simp add: expire_orders_Cons_found[OF cur] del: expire_orders.simps)
  next
    case False
    with Cons.prems(1) row have f: "\<exists>(i, ord)\<in>set rows. fails i" by auto
    have ex: "\<forall>(i, ord)\<in>set rows. get_order (work ?s1) i \<noteq> None"
      using Cons.prems(2) fr(3) by auto
    from Cons.IH[OF f ex, of "count + 1" "codes @ [order_ref_of ord oid]"] False row fr(1,2)
    show ?thesis by (simp add: expire_orders_Cons_found[OF cur] del: expire_orders.simps)
  qed
qed

lemma expire_orders_others:
  assumes "\<forall>(i, ord)\<in>set rows. get_order (work s) i \<noteq> None"
    and "j \<notin> fst ` set rows"
  shows "get_order (work (snd (expire_orders send fails rows count codes s))) j =
           get_order (work s) j"
  using assms
proof (induction rows arbitrary: count codes s)
  case Nil
  then show ?case by simp
next
  case (Cons row rows)
  obtain oid ord where row: "row = (oid, ord)" by (cases row)
  from Cons.prems(1) row obtain cur where cur: "get_order (work s) oid = Some cur" by auto
  let ?s1 = "expire_step send oid ord s"
  note fr = expire_step_frame[OF cur, of send ord]
  have ne: "j \<noteq> oid" using Cons.prems(2) row by auto
  have ex: "\<forall>(i, ord)\<in>set rows. get_order (work ?s1) i \<noteq> None"
    using Cons.prems(1) fr(3) by auto
  have nj: "j \<notin> fst ` set rows" using Cons.prems(2) by auto
  from Cons.IH[OF ex nj, of "count + 1" "codes @ [order_ref_of ord oid]"] fr(3)[of j] ne row
  show ?case by (simp add: expire_orders_Cons_found[OF cur] del: expire_orders.simps)
qed


lemma order_row_exists:
  "(i, ord) \<in> set (order_tbl db) \<Longrightarrow> get_order db i \<noteq> None"
  by (auto simp: get_order_def dest: weak_map_of_SomeI)

lemma get_order_row:
  "distinct (map fst (order_tbl db)) \<Longrightarrow>
     (get_order db i = Some ord) = ((i, ord) \<in> set (order_tbl db))"
  by (simp add: get_order_def)

lemma release_items_goods_cong:
  "goods_tbl d1 = goods_tbl d2 \<Longrightarrow>
     goods_tbl (release_items o1 r1 f1 its d1) = goods_tbl (release_items o2 r2 f2 its d2)"
proof (induction its arbitrary: d1 d2)
  case Nil
  then show ?case by simp
next
  case (Cons a its)
  show ?case
  proof (cases "goods_tbl d2 (item_name a)")
    case None
    with Cons show ?thesis by simp
  next
    case (Some g)
    let ?g = "g\<lparr>reserved_quantity := (if reserved_quantity g - quantity a < 0 then 0
                                    else reserved_quantity g - quantity a)\<rparr>"
    have "goods_tbl (log_inventory_change (item_name a) ''release'' (- quantity a) (Some o1) None
             (Released r1 f1) (set_goods (item_name a) ?g d1)) =
          goods_tbl (log_inventory_change (item_name a) ''release'' (- quantity a) (Some o2) None
             (Released r2 f2) (set_goods (item_name a) ?g d2))"
      using Cons.prems by simp
    from Cons.IH[OF this] Some Cons.prems show ?thesis by (simp add: Let_def)
  qed
qed

lemma release_rows_goods_cong:
  "goods_tbl d1 = goods_tbl d2 \<Longrightarrow> goods_tbl (release_rows rows d1) = goods_tbl (release_rows rows d2)"
proof (induction rows arbitrary: d1 d2)
  case Nil
  then show ?case by simp
next
  case (Cons row rows)
  obtain oid ord where row: "row = (oid, ord)" by (cases row)
  from Cons.IH[OF release_items_goods_cong[OF Cons.prems]] row show ?case by simp
qed

lemma release_items_single:
  "count_list (map item_name its) n = 1 \<Longrightarrow> it \<in> set its \<Longrightarrow> item_name it = n \<Longrightarrow>
     goods_tbl (release_items oid reason ref its db) n =
       map_option (\<lambda>g. g\<lparr>reserved_quantity := max 0 (reserved_quantity g - quantity it)\<rparr>)
         (goods_tbl db n)"
proof (induction its arbitrary: db)
  case Nil
  then show ?case by simp
next
  case (Cons a its)
  show ?case
  proof (cases "item_name a = n")
    case True
    with Cons.prems(1) have "count_list (map item_name its) n = 0" by simp
    then have notin: "n \<notin> item_name ` set its" by (simp add: count_list_0_iff)
    with Cons.prems(2,3) have ita: "it = a" by auto
    show ?thesis
      using release_items_other[OF notin] True ita
      by (cases "goods_tbl db n") (auto simp: Let_def max_def)
  next
    case False
    with Cons.prems have c: "count_list (map item_name its) n = 1" and m: "it \<in> set its"
      by auto
    show ?thesis
      using Cons.IH[OF c m Cons.prems(3)] False
      by (cases "goods_tbl db (item_name a)") (auto simp: Let_def)
  qed
qed

lemma release_rows_other:
  "n \<notin> set (released_names rows) \<Longrightarrow> goods_tbl (release_rows rows db) n = goods_tbl db n"
proof (induction rows arbitrary: db)
  case Nil
  then show ?case by simp
next
  case (Cons row rows)
  obtain oid ord where row: "row = (oid, ord)" by (cases row)
  from Cons.prems row have a: "n \<notin> item_name ` set (items ord)"
    and b: "n \<notin> set (released_names rows)"
    by (auto simp: released_names_def)
  from Cons.IH[OF b] release_items_other[OF a] row show ?case by simp
qed

lemma release_rows_single:
  "count_list (released_names rows) n = 1 \<Longrightarrow> (i, ord) \<in> set rows \<Longrightarrow> it \<in> set (items ord) \<Longrightarrow>
   item_name it = n \<Longrightarrow>
     goods_tbl (release_rows rows db) n =
       map_option (\<lambda>g. g\<lparr>reserved_quantity := max 0 (reserved_quantity g - quantity it)\<rparr>)
         (goods_tbl db n)"
proof (induction rows arbitrary: db)
  case Nil
  then show ?case by simp
next
  case (Cons row rows)
  obtain j o2 where row: "row = (j, o2)" by (cases row)
  let ?db = "release_items j ''Reservation timeout expired'' (order_ref_of o2 j) (items o2) db"
  have names: "released_names (row # rows) = map item_name (items o2) @ released_names rows"
    using row by (simp add: released_names_def)
  have sum: "count_list (map item_name (items o2)) n + count_list (released_names rows) n = 1"
    using Cons.prems(1) names by simp
  have inrest: "n \<in> set (released_names rows)" if "(i, ord) \<in> set rows"
    using that Cons.prems(3,4) by (force simp: released_names_def)
  show ?case
  proof (cases "count_list (released_names rows) n = 0")
    case True
    then have notin: "n \<notin> set (released_names rows)" by (simp add: count_list_0_iff)
    with inrest Cons.prems(2) row have here: "(i, ord) = (j, o2)" by auto
    from True sum have c: "count_list (map item_name (items o2)) n = 1" by simp
    from release_rows_other[OF notin, of ?db]
      release_items_single[OF c, of it j "''Reservation timeout expired''" "order_ref_of o2 j" db]
      here Cons.prems(3,4) row
    show ?thesis by simp
  next
    case False
    with sum have c0: "count_list (map item_name (items o2)) n = 0"
      and c1: "count_list (released_names rows) n = 1" by auto
    from c0 have notin: "n \<notin> item_name ` set (items o2)" by (simp add: count_list_0_iff)
    have "(i, ord) \<in> set rows"
    proof (rule ccontr)
      assume "(i, ord) \<notin> set rows"
      with Cons.prems(2) row have "ord = o2" by auto
      with Cons.prems(3,4) notin show False by auto
    qed
    from Cons.IH[OF c1 this Cons.prems(3,4), of ?db] release_items_other[OF notin] row
    show ?thesis by simp
  qed
qed

lemma expire_step_goods:
  assumes "get_order (work s) oid = Some cur"
  shows "goods_tbl (work (expire_step send oid ord s)) =
           goods_tbl (release_items oid ''Reservation timeout expired'' (order_ref_of cur oid)
                        (items cur) (work s))"
proof -
  have f: "get_order (work (session_or_new (Some s) (base s))) oid = Some cur"
    using assms by simp
  from release_reservation_found(2)[OF f, of "''Reservation timeout expired''"]
  show ?thesis by (simp add: expire_step_def refund_bonus_frame)
qed

lemma expire_orders_goods:
  assumes "distinct (map fst rows)"
    and "\<forall>(i, ord)\<in>set rows. get_order (work s) i = Some ord \<and> \<not> fails i"
  shows "goods_tbl (work (snd (expire_orders send fails rows count codes s))) =
           goods_tbl (release_rows rows (work s))"
  using assms
proof (induction rows arbitrary: count codes s)
  case Nil
  then show ?case by simp
next
  case (Cons row rows)
  obtain oid ord where row: "row = (oid, ord)" by (cases row)
  from Cons.prems(2) row have cur: "get_order (work s) oid = Some ord" and nf: "\<not> fails oid"
    by auto
  let ?s1 = "expire_step send oid ord s"
  note fr = expire_step_frame[OF cur, of send ord]
  have d: "distinct (map fst rows)" using Cons.prems(1) by simp
  have ne: "i \<noteq> oid" if "(i, o2) \<in> set rows" for i o2
    using Cons.prems(1) row that by force
  have pre: "\<forall>(i, ord)\<in>set rows. get_order (work ?s1) i = Some ord \<and> \<not> fails i"
    using Cons.prems(2) fr(3) ne by auto
  have "goods_tbl (work (snd (expire_orders send fails rows (count + 1)
            (codes @ [order_ref_of ord oid]) ?s1))) = goods_tbl (release_rows rows (work ?s1))"
    using Cons.IH[OF d pre] .
  also have "\<dots> = goods_tbl (release_rows rows
      (release_items oid ''Reservation timeout expired'' (order_ref_of ord oid) (items ord) (work s)))"
    by (rule release_rows_goods_cong) (rule expire_step_goods[OF cur])
  finally show ?case
    using nf row by (simp add: expire_orders_Cons_found[OF cur] del: expire_orders.simps)
qed

text \<open>
  Claim C5, as amended. A sweep handles all due orders (status \<open>reserved\<close>, deadline
  before now) on one session and commits once, after the loop. When
  \<open>log_order_cancellation\<close> raises for none of them, the sweep returns their number and
  codes, the only session calls are that one \<open>commit\<close> and the \<open>close\<close>, every due order
  is committed as expired with its deadline cleared, and the committed stock is the stock
  before the sweep with the lines of all due orders released in turn: an item named by
  exactly one line of the due orders has its reserved quantity lowered by that line's
  quantity, not below zero, an item named by none is unchanged, and an item missing from
  the goods table is skipped. When \<open>log_order_cancellation\<close> raises for one of them, the
  exception leaves the sweep, the session is closed without a commit, and the committed
  database is the one before the sweep: every due order, also one handled before the
  failing one, is due again in the next cycle and no stock is released.
\<close>

theorem sweep_single_commit:
  "((\<forall>(i, ord)\<in>set (due_orders now db). \<not> cancellation_log_fails i) \<longrightarrow>
      (\<exists>s'. cleanup_expired_reservations send_message cancellation_log_fails now db =
              (Some (length (due_orders now db),
                     map (\<lambda>(i, ord). order_ref_of ord i) (due_orders now db)), s') \<and>
            session_calls s' = [Commit, Close] \<and>
            (\<forall>(i, ord)\<in>set (due_orders now db). expired_in (base s') i) \<and>
            (distinct (map fst (order_tbl db)) \<longrightarrow>
               goods_tbl (base s') = goods_tbl (release_rows (due_orders now db) db) \<and>
               (\<forall>(i, ord)\<in>set (due_orders now db). \<forall>it\<in>set (items ord).
                  count_list (released_names (due_orders now db)) (item_name it) = 1 \<longrightarrow>
                  goods_tbl (base s') (item_name it) =
                    map_option (\<lambda>g. g\<lparr>reserved_quantity :=
                                        max 0 (reserved_quantity g - quantity it)\<rparr>)
                      (goods_tbl db (item_name it))) \<and>
               (\<forall>n. n \<notin> set (released_names (due_orders now db)) \<longrightarrow>
                  goods_tbl (base s') n = goods_tbl db n)))) \<and>
   ((\<exists>(i, ord)\<in>set (due_orders now db). cancellation_log_fails i) \<longrightarrow>
      (\<exists>s'. cleanup_expired_reservations send_message cancellation_log_fails now db = (None, s') \<and>
            session_calls s' = [Close] \<and> base s' = db \<and> work s' = db))"
proof (intro conjI impI)
  let ?rows = "due_orders now db"
  let ?s = "new_session db"
  assume nofault: "\<forall>(i, ord)\<in>set ?rows. \<not> cancellation_log_fails i"
  have sub: "(i, ord) \<in> set (order_tbl db)" if "(i, ord) \<in> set ?rows" for i ord
    using that by (simp add: due_orders_def)
  have found: "get_order (work ?s) i \<noteq> None" if "(i, ord) \<in> set ?rows" for i ord
    using order_row_exists[OF sub[OF that]] by simp
  have pre: "\<forall>(i, ord)\<in>set ?rows. \<not> cancellation_log_fails i \<and> get_order (work ?s) i \<noteq> None"
    using nofault found by blast
  from expire_orders_no_fault[OF pre, of send_message 0 "[]"]
  obtain s' where
    e: "expire_orders send_message cancellation_log_fails ?rows 0 [] ?s =
          (Some (length ?rows, map (\<lambda>(i, ord). order_ref_of ord i) ?rows), s')"
    and c: "session_calls s' = session_calls ?s"
    and fin: "\<forall>(i, ord)\<in>set ?rows. expired_in (work s') i"
    by auto
  have r: "cleanup_expired_reservations send_message cancellation_log_fails now db =
          (Some (length ?rows, map (\<lambda>(i, ord). order_ref_of ord i) ?rows), close (commit s'))"
    using e by (simp add: cleanup_expired_reservations_def due_orders_def)
  have calls: "session_calls (close (commit s')) = [Commit, Close]" using c by simp
  have ex: "\<forall>(i, ord)\<in>set ?rows. expired_in (base (close (commit s'))) i"
    using fin by auto
  have goods: "goods_tbl (base (close (commit s'))) = goods_tbl (release_rows ?rows db) \<and>
      (\<forall>(i, ord)\<in>set ?rows. \<forall>it\<in>set (items ord).
          count_list (released_names ?rows) (item_name it) = 1 \<longrightarrow>
          goods_tbl (base (close (commit s'))) (item_name it) =
            map_option (\<lambda>g. g\<lparr>reserved_quantity := max 0 (reserved_quantity g - quantity it)\<rparr>)
              (goods_tbl db (item_name it))) \<and>
      (\<forall>n. n \<notin> set (released_names ?rows) \<longrightarrow>
          goods_tbl (base (close (commit s'))) n = goods_tbl db n)"
    if d: "distinct (map fst (order_tbl db))"
  proof -
    have d': "distinct (map fst ?rows)"
      using d by (simp add: due_orders_def distinct_map_filter)
    have pre': "\<forall>(i, ord)\<in>set ?rows. get_order (work ?s) i = Some ord \<and> \<not> cancellation_log_fails i"
      using nofault sub get_order_row[OF d] by auto
    from expire_orders_goods[OF d' pre', of send_message 0 "[]"] e
    have g: "goods_tbl (base (close (commit s'))) = goods_tbl (release_rows ?rows db)"
      by simp
    have single: "goods_tbl (release_rows ?rows db) (item_name it) =
            map_option (\<lambda>g. g\<lparr>reserved_quantity := max 0 (reserved_quantity g - quantity it)\<rparr>)
              (goods_tbl db (item_name it))"
      if "(i, ord) \<in> set ?rows" "it \<in> set (items ord)"
         "count_list (released_names ?rows) (item_name it) = 1" for i ord it
      using release_rows_single[OF that(3) that(1) that(2) refl] .
    show ?thesis
      using g single release_rows_other[of _ ?rows db] by auto
  qed
  from r calls ex goods
  show "\<exists>s'. cleanup_expired_reservations send_message cancellation_log_fails now db =
              (Some (length ?rows, map (\<lambda>(i, ord). order_ref_of ord i) ?rows), s') \<and>
            session_calls s' = [Commit, Close] \<and>
            (\<forall>(i, ord)\<in>set ?rows. expired_in (base s') i) \<and>
            (distinct (map fst (order_tbl db)) \<longrightarrow>
               goods_tbl (base s') = goods_tbl (release_rows ?rows db) \<and>
               (\<forall>(i, ord)\<in>set ?rows. \<forall>it\<in>set (items ord).
                  count_list (released_names ?rows) (item_name it) = 1 \<longrightarrow>
                  goods_tbl (base s') (item_name it) =
                    map_option (\<lambda>g. g\<lparr>reserved_quantity :=
                                        max 0 (reserved_quantity g - quantity it)\<rparr>)
                      (goods_tbl db (item_name it))) \<and>
               (\<forall>n. n \<notin> set (released_names ?rows) \<longrightarrow>
                  goods_tbl (base s') n = goods_tbl db n))"
    by blast
next
  let ?rows = "due_orders now db"
  let ?s = "new_session db"
  assume f: "\<exists>(i, ord)\<in>set ?rows. cancellation_log_fails i"
  have pre: "\<forall>(i, ord)\<in>set ?rows. get_order (work ?s) i \<noteq> None"
    using order_row_exists[of _ _ db] by (auto simp: due_orders_def)
  from expire_orders_fault[OF f pre, of send_message 0 "[]"]
  obtain s' where
    e: "expire_orders send_message cancellation_log_fails ?rows 0 [] ?s = (None, s')"
    and b: "base s' = base ?s" and c: "session_calls s' = session_calls ?s"
    by auto
  have "cleanup_expired_reservations send_message cancellation_log_fails now db = (None, close s')"
    using e by (simp add: cleanup_expired_reservations_def due_orders_def)
  moreover have "session_calls (close s') = [Close]" using c by simp
  moreover have "base (close s') = db" "work (close s') = db" using b by simp_all
  ultimately show "\<exists>s'. cleanup_expired_reservations send_message cancellation_log_fails now db
        = (None, s') \<and> session_calls s' = [Close] \<and> base s' = db \<and> work s' = db"
    by blast
qed

lemmas sweep_defs = cleanup_expired_reservations_def is_due_def refund_bonus_def
  expired_in_def session_calls_def new_session_def commit_def close_def logger_def
  due_orders_def released_names_def

text \<open>
  Claim C5 at a concrete input: two due orders that share an item, first without and then
  with a failure at the second one. Without a failure both are committed as expired and
  the five reserved Widgets and the one reserved Gadget are free again; with a failure
  nothing is committed.
\<close>

theorem sweep_single_commit_witness:
  "(\<exists>s'. cleanup_expired_reservations (\<lambda>buyer. True) (\<lambda>i. False) 10000
       (sample_db [(''Widget'', stocked 10 5), (''Gadget'', stocked 4 3)]
          [(1, sample_order ''reserved'' ''cash'' (Some 5000) [line ''Widget'' 2]),
           (2, sample_order ''reserved'' ''cash'' (Some 6000)
                 [line ''Widget'' 3, line ''Gadget'' 1])])
      = (Some (2, [Code ''ECBDJI'', Code ''ECBDJI'']), s') \<and>
      session_calls s' = [Commit, Close] \<and>
      expired_in (base s') 1 \<and> expired_in (base s') 2 \<and>
      goods_tbl (base s') ''Widget'' = Some (stocked 10 0) \<and>
      goods_tbl (base s') ''Gadget'' = Some (stocked 4 2)) \<and>
   (\<exists>s'. cleanup_expired_reservations (\<lambda>buyer. True) (\<lambda>i. i = 2) 10000
       (sample_db [(''Widget'', stocked 10 5), (''Gadget'', stocked 4 3)]
          [(1, sample_order ''reserved'' ''cash'' (Some 5000) [line ''Widget'' 2]),
           (2, sample_order ''reserved'' ''cash'' (Some 6000)
                 [line ''Widget'' 3, line ''Gadget'' 1])])
      = (None, s') \<and>
      session_calls s' = [Close] \<and>
      base s' = sample_db [(''Widget'', stocked 10 5), (''Gadget'', stocked 4 3)]
          [(1, sample_order ''reserved'' ''cash'' (Some 5000) [line ''Widget'' 2]),
           (2, sample_order ''reserved'' ''cash'' (Some 6000)
                 [line ''Widget'' 3, line ''Gadget'' 1])])"
proof -
  let ?o1 = "sample_order ''reserved'' ''cash'' (Some 5000) [line ''Widget'' 2]"
  let ?o2 = "sample_order ''reserved'' ''cash'' (Some 6000) [line ''Widget'' 3, line ''Gadget'' 1]"
  let ?db = "sample_db [(''Widget'', stocked 10 5), (''Gadget'', stocked 4 3)] [(1, ?o1), (2, ?o2)]"
  have due: "due_orders 10000 ?db = [(1, ?o1), (2, ?o2)]"
    by (simp add: sample_defs due_orders_def is_due_def)
  have h1: "\<forall>(i, ord)\<in>set (due_orders 10000 ?db). \<not> (\<lambda>i. False) i"
    by simp
  have h2: "\<exists>(i, ord)\<in>set (due_orders 10000 ?db). (\<lambda>i. i = 2) i"
    by (simp add: due)
  have h3: "distinct (map fst (order_tbl ?db))"
    by (simp add: sample_defs)
  have h4: "count_list (released_names (due_orders 10000 ?db)) (item_name (line ''Gadget'' 1)) = 1"
    unfolding due by (simp add: released_names_def sample_defs)
  have w: "goods_tbl (release_rows (due_orders 10000 ?db) ?db) ''Widget'' = Some (stocked 10 0)"
    unfolding due by (simp add: sample_defs engine_defs)
  have g: "map_option (\<lambda>g. g\<lparr>reserved_quantity := max 0 (reserved_quantity g - quantity (line ''Gadget'' 1))\<rparr>)
             (goods_tbl ?db (item_name (line ''Gadget'' 1))) = Some (stocked 4 2)"
    by (simp add: sample_defs)
  have n: "item_name (line ''Gadget'' 1) = ''Gadget''"
    by (simp add: sample_defs)
  have i2: "line ''Gadget'' 1 \<in> set (items ?o2)"
    by (simp add: sample_defs)
  from sweep_single_commit [of 10000 ?db "\<lambda>i. False" "\<lambda>buyer. True"] h1 h3
  obtain s' where a: "cleanup_expired_reservations (\<lambda>buyer. True) (\<lambda>i. False) 10000 ?db =
        (Some (length (due_orders 10000 ?db),
               map (\<lambda>(i, ord). order_ref_of ord i) (due_orders 10000 ?db)), s')"
    and a2: "session_calls s' = [Commit, Close]"
    and a3: "\<forall>(i, ord)\<in>set (due_orders 10000 ?db). expired_in (base s') i"
    and a4: "goods_tbl (base s') = goods_tbl (release_rows (due_orders 10000 ?db) ?db)"
    and a5: "\<forall>(i, ord)\<in>set (due_orders 10000 ?db). \<forall>it\<in>set (items ord).
                  count_list (released_names (due_orders 10000 ?db)) (item_name it) = 1 \<longrightarrow>
                  goods_tbl (base s') (item_name it) =
                    map_option (\<lambda>g. g\<lparr>reserved_quantity :=
                                        max 0 (reserved_quantity g - quantity it)\<rparr>)
                      (goods_tbl ?db (item_name it))"
    by blast
  have r: "(Some (length (due_orders 10000 ?db),
               map (\<lambda>(i, ord). order_ref_of ord i) (due_orders 10000 ?db)))
       = Some (2, [Code ''ECBDJI'', Code ''ECBDJI''])"
    unfolding due by (simp add: sample_defs order_ref_of_def)
  have e1: "expired_in (base s') 1" and e2: "expired_in (base s') 2"
    using a3 by (simp_all add: due)
  have "(2, ?o2) \<in> set (due_orders 10000 ?db)" by (simp add: due)
  with a5 i2 h4 have "goods_tbl (base s') (item_name (line ''Gadget'' 1)) =
      map_option (\<lambda>g. g\<lparr>reserved_quantity := max 0 (reserved_quantity g - quantity (line ''Gadget'' 1))\<rparr>)
             (goods_tbl ?db (item_name (line ''Gadget'' 1)))"
    by blast
  with g n have gad: "goods_tbl (base s') ''Gadget'' = Some (stocked 4 2)" by simp
  from a4 w have wid: "goods_tbl (base s') ''Widget'' = Some (stocked 10 0)" by simp
  from a r a2 e1 e2 wid gad
  have A: "\<exists>s'. cleanup_expired_reservations (\<lambda>buyer. True) (\<lambda>i. False) 10000 ?db
      = (Some (2, [Code ''ECBDJI'', Code ''ECBDJI'']), s') \<and>
      session_calls s' = [Commit, Close] \<and>
      expired_in (base s') 1 \<and> expired_in (base s') 2 \<and>
      goods_tbl (base s') ''Widget'' = Some (stocked 10 0) \<and>
      goods_tbl (base s') ''Gadget'' = Some (stocked 4 2)"
    by simp
  from sweep_single_commit [of 10000 ?db "\<lambda>i. i = 2" "\<lambda>buyer. True"] h2
  have B: "\<exists>s'. cleanup_expired_reservations (\<lambda>buyer. True) (\<lambda>i. i = 2) 10000 ?db
      = (None, s') \<and> session_calls s' = [Close] \<and> base s' = ?db"
    by blast
  from A B show ?thesis by blast
qed

text \<open>
  Claim C5 as stated fails: the due orders share one transaction. With two due orders and
  a failure while cleaning up the second, the first one, already handled, is still
  \<open>reserved\<close> with its old deadline in the committed database and its stock is still
  reserved; and a sweep without failure commits once for both orders.
\<close>

theorem sweep_single_commit_counterexample:
  "fst (cleanup_expired_reservations (\<lambda>buyer. True) (\<lambda>i. i = 2) 10000
       (sample_db [(''Widget'', stocked 10 5)]
          [(1, sample_order ''reserved'' ''cash'' (Some 5000) [line ''Widget'' 2]),
           (2, sample_order ''reserved'' ''cash'' (Some 6000) [line ''Widget'' 3])])) = None \<and>
   get_order (base (snd (cleanup_expired_reservations (\<lambda>buyer. True) (\<lambda>i. i = 2) 10000
       (sample_db [(''Widget'', stocked 10 5)]
          [(1, sample_order ''reserved'' ''cash'' (Some 5000) [line ''Widget'' 2]),
           (2, sample_order ''reserved'' ''cash'' (Some 6000) [line ''Widget'' 3])])))) 1
     = Some (sample_order ''reserved'' ''cash'' (Some 5000) [line ''Widget'' 2]) \<and>
   goods_tbl (base (snd (cleanup_expired_reservations (\<lambda>buyer. True) (\<lambda>i. i = 2) 10000
       (sample_db [(''Widget'', stocked 10 5)]
          [(1, sample_order ''reserved'' ''cash'' (Some 5000) [line ''Widget'' 2]),
           (2, sample_order ''reserved'' ''cash'' (Some 6000) [line ''Widget'' 3])])))) ''Widget''
     = Some (stocked 10 5) \<and>
   session_calls (snd (cleanup_expired_reservations (\<lambda>buyer. True) (\<lambda>i. False) 10000
       (sample_db [(''Widget'', stocked 10 5)]
          [(1, sample_order ''reserved'' ''cash'' (Some 5000) [line ''Widget'' 2]),
           (2, sample_order ''reserved'' ''cash'' (Some 6000) [line ''Widget'' 3])])))
     = [Commit, Close]"
  by (simp add: sample_defs engine_defs sweep_defs session_or_new_def)


subsection \<open>Orders the sweep leaves alone\<close>

lemma find_order_by_code_row:
  "find_order_by_code db code = Some (i, ord) \<Longrightarrow> (i, ord) \<in> set (order_tbl db)"
  by (auto simp: find_order_by_code_def find_Some_iff in_set_conv_nth)

lemma sweep_leaves_other_orders:
  assumes "distinct (map fst (order_tbl db))"
    and "get_order db i = Some ord"
    and "\<not> is_due now ord"
  shows "get_order (base (snd (cleanup_expired_reservations send fails now db))) i = Some ord"
proof -
  let ?rows = "filter (\<lambda>(i, ord). is_due now ord) (order_tbl db)"
  let ?s = "new_session db"
  let ?loop = "expire_orders send fails ?rows 0 [] ?s"
  have pre: "\<forall>(i, ord)\<in>set ?rows. get_order (work ?s) i \<noteq> None"
    using order_row_exists[of _ _ db] by auto
  have notin: "i \<notin> fst ` set ?rows"
  proof
    assume "i \<in> fst ` set ?rows"
    then obtain o2 where "(i, o2) \<in> set (order_tbl db)" and due: "is_due now o2" by auto
    then have "get_order db i = Some o2" using assms(1) by (simp add: get_order_row)
    with assms(2,3) due show False by simp
  qed
  have same: "get_order (work (snd ?loop)) i = Some ord"
    using expire_orders_others[OF pre notin, of send fails 0 "[]"] assms(2) by simp
  show ?thesis
  proof (cases "\<exists>(i, ord)\<in>set ?rows. fails i")
    case True
    from expire_orders_fault[OF True pre, of send 0 "[]"] obtain s' where
      "?loop = (None, s')" and "base s' = base ?s" by auto
    then show ?thesis using assms(2) by (simp add: cleanup_expired_reservations_def)
  next
    case False
    then have "\<forall>(i, ord)\<in>set ?rows. \<not> fails i \<and> get_order (work ?s) i \<noteq> None"
      using pre by auto
    from expire_orders_no_fault[OF this, of send 0 "[]"] obtain r s' where
      e: "?loop = (Some r, s')" by blast
    with same show ?thesis by (simp add: cleanup_expired_reservations_def)
  qed
qed

text \<open>
  In \<open>bot_cli.py\<close> the name \<open>timezone\<close> is bound to the module \<open>bot.config.timezone\<close>,
  which has no attribute \<open>utc\<close>, so both order commands raise before their commit:
  whatever the order, they leave the committed database as it was.
\<close>

lemma confirm_order_commits_nothing:
  "base (snd (confirm_order_with_delivery_time code delivery db)) = db"
  "Commit \<notin> set (effects (snd (confirm_order_with_delivery_time code delivery db)))"
  by (auto simp: confirm_order_with_delivery_time_def Let_def
           split: option.splits prod.splits)

lemma mark_order_delivered_commits_nothing:
  "base (snd (mark_order_delivered code owner_id db)) = db"
  "Commit \<notin> set (effects (snd (mark_order_delivered code owner_id db)))"
proof -
  let ?s = "new_session db"
  have both: "base (snd (mark_order_delivered code owner_id db)) = db \<and>
      Commit \<notin> set (effects (snd (mark_order_delivered code owner_id db)))"
  proof (cases "find_order_by_code db code")
    case None
    then show ?thesis by (simp add: mark_order_delivered_def Let_def)
  next
    case (Some row)
    obtain oid ord where row: "row = (oid, ord)" by (cases row)
    obtain success msg s1 where
      d: "deduct_inventory oid (Some owner_id) (Some ?s) (base ?s) = ((success, msg), s1)"
      by (metis prod.collapse)
    have b: "base s1 = db"
      using supplied_session_base(3)[of oid "Some owner_id" ?s "base ?s"] d by simp
    have e: "Commit \<notin> set (effects s1)"
      using deduct_inventory_effects[of oid "Some owner_id" "Some ?s" "base ?s"] d by simp
    from Some row d b e show ?thesis
      by (simp add: mark_order_delivered_def Let_def)
  qed
  from both show "base (snd (mark_order_delivered code owner_id db)) = db" by simp
  from both show "Commit \<notin> set (effects (snd (mark_order_delivered code owner_id db)))" by simp
qed

text \<open>
  Claim C8. Let the order ids be unique and let an order have no deadline and the status
  \<open>pending\<close>. Then none of the three places that write the status \<open>expired\<close>,
  \<open>confirmed\<close> or \<open>delivered\<close> changes the committed order: the expiry sweep handles
  only reserved orders with a passed deadline, and the confirm and deliver commands of
  \<open>bot_cli.py\<close> never call \<open>commit\<close> on their session.
\<close>

theorem order_transition_gates:
  assumes "distinct (map fst (order_tbl db))"
    and "get_order db i = Some ord"
    and "reserved_until ord = None"
    and "order_status ord = ''pending''"
  shows "get_order (base (snd (cleanup_expired_reservations send_message
                                 cancellation_log_fails now db))) i = Some ord \<and>
         get_order (base (snd (confirm_order_with_delivery_time code delivery db))) i = Some ord \<and>
         Commit \<notin> set (session_calls (snd (confirm_order_with_delivery_time code delivery db))) \<and>
         get_order (base (snd (mark_order_delivered code owner_id db))) i = Some ord \<and>
         Commit \<notin> set (session_calls (snd (mark_order_delivered code owner_id db)))"
proof -
  have "\<not> is_due now ord" using assms(3) by (simp add: is_due_def)
  from sweep_leaves_other_orders[OF assms(1,2) this]
  have a: "get_order (base (snd (cleanup_expired_reservations send_message
                                 cancellation_log_fails now db))) i = Some ord" .
  show ?thesis
    using a assms(2) confirm_order_commits_nothing[of code delivery db]
      mark_order_delivered_commits_nothing[of code owner_id db]
    by (simp add: session_calls_def)
qed

lemmas cli_defs = confirm_order_with_delivery_time_def mark_order_delivered_def
  find_order_by_code_def

text \<open>
  Claim C8 at a concrete input: a pending order without a deadline is the same committed
  row after the sweep, after the confirm command with a valid delivery time and after the
  deliver command; both commands end with the attribute error, the deliver command after
  the deduction on its session, which is closed without a commit.
\<close>

theorem order_transition_gates_witness:
  "get_order (base (snd (cleanup_expired_reservations (\<lambda>buyer. True) (\<lambda>i. False) 10000
       (sample_db [(''Widget'', stocked 10 0)]
          [(1, sample_order ''pending'' ''cash'' None [line ''Widget'' 3])])))) 1
     = Some (sample_order ''pending'' ''cash'' None [line ''Widget'' 3]) \<and>
   get_order (base (snd (confirm_order_with_delivery_time ''ECBDJI'' (Some 20000)
       (sample_db [(''Widget'', stocked 10 0)]
          [(1, sample_order ''pending'' ''cash'' None [line ''Widget'' 3])])))) 1
     = Some (sample_order ''pending'' ''cash'' None [line ''Widget'' 3]) \<and>
   get_order (base (snd (mark_order_delivered ''ECBDJI'' 9
       (sample_db [(''Widget'', stocked 10 0)]
          [(1, sample_order ''pending'' ''cash'' None [line ''Widget'' 3])])))) 1
     = Some (sample_order ''pending'' ''cash'' None [line ''Widget'' 3]) \<and>
   fst (confirm_order_with_delivery_time ''ECBDJI'' (Some 20000)
       (sample_db [(''Widget'', stocked 10 0)]
          [(1, sample_order ''pending'' ''cash'' None [line ''Widget'' 3])])) = Attribute_error \<and>
   fst (mark_order_delivered ''ECBDJI'' 9
       (sample_db [(''Widget'', stocked 10 0)]
          [(1, sample_order ''pending'' ''cash'' None [line ''Widget'' 3])])) = Attribute_error \<and>
   session_calls (snd (mark_order_delivered ''ECBDJI'' 9
       (sample_db [(''Widget'', stocked 10 0)]
          [(1, sample_order ''pending'' ''cash'' None [line ''Widget'' 3])]))) = [Close]"
proof -
  let ?ord = "sample_order ''pending'' ''cash'' None [line ''Widget'' 3]"
  let ?db = "sample_db [(''Widget'', stocked 10 0)] [(1, ?ord)]"
  have h1: "distinct (map fst (order_tbl ?db))" by (simp add: sample_db_def)
  have h2: "get_order ?db 1 = Some ?ord" by (simp add: get_order_def sample_db_def)
  have h3: "reserved_until ?ord = None" by (simp add: sample_order_def)
  have h4: "order_status ?ord = ''pending''" by (simp add: sample_order_def)
  have c: "fst (confirm_order_with_delivery_time ''ECBDJI'' (Some 20000) ?db) = Attribute_error"
    by (simp add: sample_defs cli_defs new_session_def close_def)
  have d: "fst (mark_order_delivered ''ECBDJI'' 9 ?db) = Attribute_error"
    by (simp add: sample_defs engine_defs cli_defs session_or_new_def new_session_def close_def)
  have e: "session_calls (snd (mark_order_delivered ''ECBDJI'' 9 ?db)) = [Close]"
    by (simp add: sample_defs engine_defs cli_defs session_or_new_def new_session_def close_def
          session_calls_def)
  from order_transition_gates [OF h1 h2 h3 h4, of "\<lambda>buyer. True" "\<lambda>i. False" 10000
      "''ECBDJI''" "Some 20000" 9] c d e
  show ?thesis by simp
qed


end
